theory Spec2Isabelle
  imports Complex_Main "HOL-Library.Multiset"
begin

section \<open>Data model of the payload package\<close>

text \<open>
  A Go \<open>float64\<close> is either not-a-number, an infinity, negative zero, or another
  finite value. Such a finite value is represented by its shortest round-trip decimal
  \<open>m * 10 ^ e\<close>, the digits that \<open>strconv.AppendFloat(b, v, 'f', -1, 64)\<close> prints. The
  constants \<open>0.0\<close> and \<open>1.0\<close> of the source are \<open>Fin 0 0\<close> and \<open>Fin 1 0\<close>; \<open>1.1\<close> is
  \<open>Fin 11 (-1)\<close>. Comparisons follow IEEE 754: every ordered comparison with NaN is
  false, and negative zero compares like zero.
\<close>

datatype float64 = Fin int int | NegZero | PosInf | NegInf | NaN

definition f64_val :: "int \<Rightarrow> int \<Rightarrow> rat" where
  "f64_val m e = (if 0 \<le> e then of_int m * 10 ^ nat e else of_int m / 10 ^ nat (- e))"

fun f64_lt :: "float64 \<Rightarrow> float64 \<Rightarrow> bool" where
  "f64_lt NaN _ = False"
| "f64_lt _ NaN = False"
| "f64_lt (Fin m e) (Fin m' e') = (f64_val m e < f64_val m' e')"
| "f64_lt (Fin m e) NegZero = (f64_val m e < 0)"
| "f64_lt NegZero (Fin m e) = (0 < f64_val m e)"
| "f64_lt NegZero NegZero = False"
| "f64_lt (Fin m e) PosInf = True"
| "f64_lt NegZero PosInf = True"
| "f64_lt (Fin m e) NegInf = False"
| "f64_lt NegZero NegInf = False"
| "f64_lt PosInf _ = False"
| "f64_lt NegInf NegInf = False"
| "f64_lt NegInf _ = True"

definition f64_gt :: "float64 \<Rightarrow> float64 \<Rightarrow> bool" where
  "f64_gt x y = f64_lt y x"

text \<open>The mathematical reading of \<open>lo \<le> x \<le> hi\<close>, which no NaN satisfies.\<close>

definition f64_le :: "float64 \<Rightarrow> float64 \<Rightarrow> bool" where
  "f64_le x y = (x \<noteq> NaN \<and> y \<noteq> NaN \<and> \<not> f64_lt y x)"

definition f64_zero :: float64 where "f64_zero = Fin 0 0"
definition f64_one :: float64 where "f64_one = Fin 1 0"

text \<open>\<open>v != 0\<close> on a float64.\<close>

fun f64_nonzero :: "float64 \<Rightarrow> bool" where
  "f64_nonzero (Fin m e) = (m \<noteq> 0)"
| "f64_nonzero NegZero = False"
| "f64_nonzero _ = True"

text \<open>
  \<open>float64(intScore)\<close>: an int of magnitude below \<open>2 ^ 53\<close> converts exactly; a larger one
  is rounded to 53 significant bits, a tie to the even neighbour. \<open>float64_shift a\<close> is the
  number of low bits that do not fit, and the result of the conversion is given by its
  exact decimal value, which is what \<open>%f\<close> prints of it.
\<close>

fun float64_shift :: "nat \<Rightarrow> nat" where
  "float64_shift a = (if a < 2 ^ 53 then 0 else Suc (float64_shift (a div 2)))"

declare float64_shift.simps [simp del]

definition round_to_even :: "nat \<Rightarrow> nat \<Rightarrow> nat" where
  "round_to_even a k =
     (if k = 0 then a
      else (let q = a div 2 ^ k; r = a mod 2 ^ k; half = 2 ^ (k - 1)
            in (if half < r \<or> (r = half \<and> odd q) then q + 1 else q) * 2 ^ k))"

definition f64_of_int :: "int \<Rightarrow> float64" where
  "f64_of_int i =
     (let a = nat \<bar>i\<bar>; v = int (round_to_even a (float64_shift a))
      in Fin (if i < 0 then - v else v) 0)"

record Sound =
  Name :: string
  Critical :: int
  Volume :: float64

record Alert =
  Title :: string
  Subtitle :: string
  Body :: string
  LaunchImage :: string
  ActionLocKey :: string
  LocKey :: string
  LocArgs :: "string list"
  TitleLocKey :: string
  TitleLocArgs :: "string list"
  SubtitleLocKey :: string
  SubtitleLocArgs :: "string list"

text \<open>
  Errors of the package as values. \<open>NilDeref\<close> is the run-time panic of dereferencing
  a nil pointer; \<open>MarshalerErr\<close> is an error returned by a value's own \<open>MarshalJSON\<close>.
\<close>

datatype error =
    EmptyDict
  | InvalidAlertType
  | InvalidBadgeType
  | InvalidSoundType
  | InvalidCriticalFlag int
  | VolumeFieldError float64
  | InvalidContentAvailable
  | InvalidMutableContent
  | InvalidInterruptionLevel string
  | InvalidEvent string
  | InvalidRelevanceType
  | RelevanceOutOfRange float64
  | ErrInvalidType
  | MarshalerErr
  | NilDeref

text \<open>
  The dynamic type \<open>any\<close>. \<open>VNil\<close> is the nil interface. \<open>VTypedNil k\<close> is a nil
  pointer, slice or map of static kind \<open>k\<close> stored in an interface (which is not the nil
  interface). \<open>VMarshaler r\<close> is a value implementing \<open>json.Marshaler\<close> whose
  \<open>MarshalJSON\<close> returns \<open>r\<close>. A map carries its entries in the order a \<open>range\<close> loop
  visits them; its keys are distinct. \<open>VOther\<close> is a value of any other type.
\<close>

datatype nil_kind =
    KAlertPtr | KSoundPtr | KEpochTimePtr | KBytes | KStrings | KInts | KInt64s | KFloat64s
  | KMap | KList

datatype go_value =
    VNil
  | VTypedNil nil_kind
  | VString string
  | VInt int
  | VInt64 int
  | VFloat64 float64
  | VBool bool
  | VBytes string
  | VEpochTime int
  | VEpochTimePtr int
  | VStrings "string list"
  | VInts "int list"
  | VInt64s "int list"
  | VFloat64s "float64 list"
  | VMarshaler "error + string"
  | VMap "(string \<times> go_value) list"
  | VList "go_value list"
  | VAlert Alert
  | VAlertPtr Alert
  | VSound Sound
  | VSoundPtr Sound
  | VOther

record APS =
  Alert :: go_value
  Badge :: go_value
  Sound :: go_value
  ContentAvailable :: go_value
  MutableContent :: go_value
  Category :: string
  ThreadID :: string
  InterruptionLevel :: string
  RelevanceScore :: go_value
  StaleDate :: "int option"
  FilterCriteria :: string
  Timestamp :: "int option"
  TargetContentID :: string
  ContentState :: "(string \<times> go_value) list"
  Event :: string
  DismissalDate :: int
  AttributesType :: string
  Attributes :: "(string \<times> go_value) list"

section \<open>Validation\<close>

text \<open>\<open>Ratio.Validate\<close> (payload/ratio.go).\<close>

definition Ratio_Validate :: "float64 \<Rightarrow> error option" where
  "Ratio_Validate r =
     (if f64_lt r f64_zero \<or> f64_gt r f64_one then Some (VolumeFieldError r) else None)"

text \<open>
  \<open>Sound.Validate\<close> (payload/sound.go). The wrapping of the ratio error into
  "volume field error" is part of the error value \<open>VolumeFieldError\<close>.
\<close>

definition Sound_Validate :: "Sound \<Rightarrow> error option" where
  "Sound_Validate s =
     (if Critical s \<noteq> 0 \<and> Critical s \<noteq> 1 then Some (InvalidCriticalFlag (Critical s))
      else case Ratio_Validate (Volume s) of
             Some err \<Rightarrow> Some err
           | None \<Rightarrow> None)"

definition isNotification :: "APS \<Rightarrow> bool" where
  "isNotification aps =
     (Alert aps \<noteq> VNil \<or> Badge aps \<noteq> VNil \<or> Sound aps \<noteq> VNil \<or>
      ContentAvailable aps \<noteq> VNil \<or> MutableContent aps \<noteq> VNil)"

definition isLiveActivity :: "APS \<Rightarrow> bool" where
  "isLiveActivity aps = (length (ContentState aps) > 0 \<or> length (Attributes aps) > 0)"

fun validate_alert :: "go_value \<Rightarrow> error option" where
  "validate_alert VNil = None"
| "validate_alert (VString s) = None"
| "validate_alert (VAlert a) = None"
| "validate_alert (VAlertPtr a) = None"
| "validate_alert (VTypedNil KAlertPtr) = None"
| "validate_alert _ = Some InvalidAlertType"

fun validate_badge :: "go_value \<Rightarrow> error option" where
  "validate_badge VNil = None"
| "validate_badge (VInt i) = None"
| "validate_badge _ = Some InvalidBadgeType"

fun validate_sound :: "go_value \<Rightarrow> error option" where
  "validate_sound VNil = None"
| "validate_sound (VString s) = None"
| "validate_sound (VSound s) = Sound_Validate s"
| "validate_sound (VSoundPtr s) = Sound_Validate s"
| "validate_sound (VTypedNil KSoundPtr) = Some NilDeref"
| "validate_sound _ = Some InvalidSoundType"

text \<open>The check shared by ContentAvailable and MutableContent: nil, or the int 1.\<close>

fun validate_flag :: "error \<Rightarrow> go_value \<Rightarrow> error option" where
  "validate_flag err VNil = None"
| "validate_flag err (VInt v) = (if v \<noteq> 1 then Some err else None)"
| "validate_flag err _ = Some err"

definition validate_interruption_level :: "string \<Rightarrow> error option" where
  "validate_interruption_level l =
     (if l \<noteq> [] then
        (if l = ''passive'' \<or> l = ''active'' \<or> l = ''time-sensitive'' \<or> l = ''critical''
         then None else Some (InvalidInterruptionLevel l))
      else None)"

definition validate_event :: "string \<Rightarrow> error option" where
  "validate_event ev =
     (if ev \<noteq> [] then
        (if ev = ''start'' \<or> ev = ''update'' \<or> ev = ''end'' then None
         else Some (InvalidEvent ev))
      else None)"

text \<open>The type switch of the relevance score: a float64 as it is, an int converted.\<close>

fun relevance_number :: "go_value \<Rightarrow> float64 option" where
  "relevance_number (VFloat64 f) = Some f"
| "relevance_number (VInt i) = Some (f64_of_int i)"
| "relevance_number _ = None"

definition validate_relevance :: "bool \<Rightarrow> go_value \<Rightarrow> error option" where
  "validate_relevance live v =
     (if v \<noteq> VNil then
        (case relevance_number v of
           None \<Rightarrow> Some InvalidRelevanceType
         | Some score \<Rightarrow>
             if \<not> live then
               (if f64_lt score f64_zero \<or> f64_gt score f64_one
                then Some (RelevanceOutOfRange score) else None)
             else None)
      else None)"

text \<open>Sequencing of checks: the first error is returned.\<close>

definition or_else :: "error option \<Rightarrow> error option \<Rightarrow> error option" where
  "or_else a b = (case a of Some err \<Rightarrow> Some err | None \<Rightarrow> b)"

text \<open>\<open>APS.Validate\<close> (payload/aps.go); \<open>None\<close> is the nil error.\<close>

definition APS_Validate :: "APS \<Rightarrow> error option" where
  "APS_Validate aps =
     (if \<not> isNotification aps \<and> \<not> isLiveActivity aps then Some EmptyDict
      else
        or_else (validate_alert (Alert aps))
       (or_else (validate_badge (Badge aps))
       (or_else (validate_sound (Sound aps))
       (or_else (validate_flag InvalidContentAvailable (ContentAvailable aps))
       (or_else (validate_flag InvalidMutableContent (MutableContent aps))
       (or_else (validate_interruption_level (InterruptionLevel aps))
       (or_else (validate_event (Event aps))
                (validate_relevance (isLiveActivity aps) (RelevanceScore aps)))))))))"

text \<open>The zero values of the structs.\<close>

definition APS_zero :: APS where
  "APS_zero = \<lparr> Alert = VNil, Badge = VNil, Sound = VNil, ContentAvailable = VNil,
     MutableContent = VNil, Category = [], ThreadID = [], InterruptionLevel = [],
     RelevanceScore = VNil, StaleDate = None, FilterCriteria = [], Timestamp = None,
     TargetContentID = [], ContentState = [], Event = [], DismissalDate = 0,
     AttributesType = [], Attributes = [] \<rparr>"

definition Sound_zero :: Sound where
  "Sound_zero = \<lparr> Name = [], Critical = 0, Volume = f64_zero \<rparr>"

text \<open>The dictionaries of the validation tests: a plain alert and a live activity.\<close>

definition plain_alert :: "float64 \<Rightarrow> APS" where
  "plain_alert f = APS_zero\<lparr>Alert := VString ''Hello'', RelevanceScore := VFloat64 f\<rparr>"

definition live_activity :: "float64 \<Rightarrow> APS" where
  "live_activity f =
     APS_zero\<lparr>ContentState := [(''status'', VString ''running'')], RelevanceScore := VFloat64 f\<rparr>"

section \<open>The fast encoder\<close>

subsection \<open>Strings and numbers\<close>

definition hex :: string where
  "hex = ''0123456789abcdef''"

text \<open>The bytes \<open>"\<close> (0x22) and \<open>\\<close> (0x5C).\<close>

definition dquote :: char where "dquote = CHR 0x22"
definition bslash :: char where "bslash = CHR 0x5C"

text \<open>
  One iteration of the loop of \<open>appendQuote\<close> in \<open>APS.MarshalJSONFast\<close>,
  \<open>Alert.MarshalJSONFast\<close> and \<open>Sound.MarshalJSONFast\<close>: \<open>c>>4\<close> is \<open>c div 16\<close> and
  \<open>c&0xF\<close> is \<open>c mod 16\<close>.
\<close>

definition quote_byte :: "char \<Rightarrow> string" where
  "quote_byte c =
     (if c = dquote \<or> c = bslash then [bslash, c]
      else if (of_char c :: nat) \<le> 0x1F then
        [bslash, CHR ''u'', CHR ''0'', CHR ''0'',
         hex ! ((of_char c :: nat) div 16), hex ! ((of_char c :: nat) mod 16)]
      else [c])"

primrec quote_loop :: "(char \<Rightarrow> string) \<Rightarrow> string \<Rightarrow> string \<Rightarrow> string" where
  "quote_loop q b [] = b"
| "quote_loop q b (c # val) = quote_loop q (b @ q c) val"

definition appendQuote :: "string \<Rightarrow> string \<Rightarrow> string" where
  "appendQuote b val = quote_loop quote_byte (b @ [dquote]) val @ [dquote]"

text \<open>The \<open>appendQuote\<close> closure of \<open>marshalCustomData\<close> (payload_marshal.go).\<close>

definition customData_quote_byte :: "char \<Rightarrow> string" where
  "customData_quote_byte c = (if c = dquote \<or> c = bslash then [bslash, c] else [c])"

definition customData_appendQuote :: "string \<Rightarrow> string \<Rightarrow> string" where
  "customData_appendQuote b val = quote_loop customData_quote_byte (b @ [dquote]) val @ [dquote]"

text \<open>
  \<open>strconv.AppendQuote\<close> of the Go standard library, which is not part of the
  repository: it appends a double-quoted Go string literal. Modelled from its
  documentation: the quote and the backslash are backslashed, printable ASCII is copied,
  the control characters with a Go escape (\<open>\a \b \f \n \r \t \v\<close>) use it, and every
  other byte below 0x80 is written \<open>\xHH\<close>. A byte at or above 0x80 is copied: a string
  is taken to be valid UTF-8 text of printable characters, which the library copies. What
  the library does on other input (an invalid byte is written \<open>\xHH\<close>, a non-printable
  character above 0x7F \<open>\uHHHH\<close>) is outside this model.
\<close>

definition strconv_quote_byte :: "char \<Rightarrow> string" where
  "strconv_quote_byte c =
     (let n = (of_char c :: nat) in
      if c = dquote \<or> c = bslash then [bslash, c]
      else if 0x20 \<le> n \<and> n < 0x7F then [c]
      else if 0x80 \<le> n then [c]
      else if n = 0x07 then [bslash, CHR ''a'']
      else if n = 0x08 then [bslash, CHR ''b'']
      else if n = 0x0C then [bslash, CHR ''f'']
      else if n = 0x0A then [bslash, CHR ''n'']
      else if n = 0x0D then [bslash, CHR ''r'']
      else if n = 0x09 then [bslash, CHR ''t'']
      else if n = 0x0B then [bslash, CHR ''v'']
      else [bslash, CHR ''x'', hex ! (n div 16), hex ! (n mod 16)])"

definition strconv_AppendQuote :: "string \<Rightarrow> string \<Rightarrow> string" where
  "strconv_AppendQuote b val = quote_loop strconv_quote_byte (b @ [dquote]) val @ [dquote]"

text \<open>\<open>strconv.AppendInt(b, i, 10)\<close>: the minimal decimal, with a sign when negative.\<close>

definition digit_char :: "nat \<Rightarrow> char" where
  "digit_char d = ''0123456789'' ! d"

fun dec_nat :: "nat \<Rightarrow> string" where
  "dec_nat n = (if n < 10 then [digit_char n] else dec_nat (n div 10) @ [digit_char (n mod 10)])"

declare dec_nat.simps [simp del]

definition dec_int :: "int \<Rightarrow> string" where
  "dec_int i = (if i < 0 then CHR ''-'' # dec_nat (nat (- i)) else dec_nat (nat i))"

definition strconv_AppendInt :: "string \<Rightarrow> int \<Rightarrow> string" where
  "strconv_AppendInt b i = b @ dec_int i"

text \<open>
  \<open>strconv.AppendFloat(b, v, 'f', -1, 64)\<close>: the shortest round-trip decimal in
  positional notation, without exponent. With \<open>v = m * 10 ^ e\<close>: the digits of \<open>m\<close>
  followed by \<open>e\<close> zeros when \<open>e \<ge> 0\<close>, and the digits of \<open>m\<close> (padded with zeros on the
  left) with the point before the last \<open>-e\<close> of them otherwise.
\<close>

definition dec_fixed :: "nat \<Rightarrow> nat \<Rightarrow> string" where
  "dec_fixed m k =
     (let ds = dec_nat m;
          padded = replicate (Suc k - length ds) (CHR ''0'') @ ds
      in take (length padded - k) padded @ CHR ''.'' # drop (length padded - k) padded)"

fun format_f64 :: "float64 \<Rightarrow> string" where
  "format_f64 NaN = ''NaN''"
| "format_f64 PosInf = ''+Inf''"
| "format_f64 NegInf = ''-Inf''"
| "format_f64 NegZero = ''-0''"
| "format_f64 (Fin m e) =
     (if m = 0 then ''0''
      else (if m < 0 then ''-'' else []) @
           (if 0 \<le> e then dec_nat (nat \<bar>m\<bar>) @ replicate (nat e) (CHR ''0'')
            else dec_fixed (nat \<bar>m\<bar>) (nat (- e))))"

definition strconv_AppendFloat :: "string \<Rightarrow> float64 \<Rightarrow> string" where
  "strconv_AppendFloat b v = b @ format_f64 v"

subsection \<open>Comma bookkeeping\<close>

text \<open>
  The encoders keep the buffer \<open>b\<close> and the flag \<open>first\<close>. \<open>addComma\<close> is the closure of
  that name; \<open>emit present f\<close> is the recurring statement
  \<open>if present { addComma(); b = f(b) }\<close>, and \<open>emit_r\<close> is the same where \<open>f\<close> may fail.
\<close>

definition addComma :: "string \<times> bool \<Rightarrow> string \<times> bool" where
  "addComma st = (case st of (b, first) \<Rightarrow> if \<not> first then (b @ '','', first) else (b, False))"

definition emit :: "bool \<Rightarrow> (string \<Rightarrow> string) \<Rightarrow> string \<times> bool \<Rightarrow> string \<times> bool" where
  "emit present f st = (if present then (case addComma st of (b, first) \<Rightarrow> (f b, first)) else st)"

definition emit_r ::
  "bool \<Rightarrow> (string \<Rightarrow> error + string) \<Rightarrow> string \<times> bool \<Rightarrow> error + string \<times> bool" where
  "emit_r present f st =
     (if present then
        (case addComma st of (b, first) \<Rightarrow>
           (case f b of Inl err \<Rightarrow> Inl err | Inr b' \<Rightarrow> Inr (b', first)))
      else Inr st)"

definition then_r :: "error + 'a \<Rightarrow> ('a \<Rightarrow> error + 'b) \<Rightarrow> error + 'b" where
  "then_r r f = (case r of Inl err \<Rightarrow> Inl err | Inr x \<Rightarrow> f x)"

subsection \<open>Sound and Alert\<close>

text \<open>\<open>Sound.MarshalJSONFast\<close>; it never returns an error.\<close>

definition Sound_MarshalJSONFast :: "Sound \<Rightarrow> error + string" where
  \<open>Sound_MarshalJSONFast s =
     (let st = (''{'', True);
          st = emit (Critical s \<noteq> 0)
                 (\<lambda>b. strconv_AppendInt (b @ ''"critical":'') (Critical s)) st;
          st = emit (Name s \<noteq> []) (\<lambda>b. appendQuote (b @ ''"name":'') (Name s)) st;
          st = emit (f64_nonzero (Volume s))
                 (\<lambda>b. strconv_AppendFloat (b @ ''"volume":'') (Volume s)) st
      in Inr (fst st @ ''}''))\<close>

definition addString :: "string \<Rightarrow> string \<Rightarrow> string \<Rightarrow> string" where
  "addString key val b = appendQuote (b @ [dquote] @ key @ [dquote, CHR '':'']) val"

primrec addStringSlice_loop :: "string \<Rightarrow> bool \<Rightarrow> string list \<Rightarrow> string" where
  "addStringSlice_loop b first [] = b"
| "addStringSlice_loop b first (v # vals) =
     addStringSlice_loop (appendQuote (if \<not> first then b @ '','' else b) v) False vals"

definition addStringSlice :: "string \<Rightarrow> string list \<Rightarrow> string \<Rightarrow> string" where
  "addStringSlice key vals b =
     addStringSlice_loop (b @ [dquote] @ key @ [dquote, CHR '':'', CHR ''['']) True vals @ '']''"

text \<open>\<open>Alert.MarshalJSONFast\<close>; it never returns an error.\<close>

definition Alert_MarshalJSONFast :: "Alert \<Rightarrow> error + string" where
  "Alert_MarshalJSONFast a =
     (let st = (''{'', True);
          st = emit (Title a \<noteq> []) (addString ''title'' (Title a)) st;
          st = emit (Subtitle a \<noteq> []) (addString ''subtitle'' (Subtitle a)) st;
          st = emit (Body a \<noteq> []) (addString ''body'' (Body a)) st;
          st = emit (LaunchImage a \<noteq> []) (addString ''launch-image'' (LaunchImage a)) st;
          st = emit (LocKey a \<noteq> []) (addString ''loc-key'' (LocKey a)) st;
          st = emit (length (LocArgs a) > 0) (addStringSlice ''loc-args'' (LocArgs a)) st;
          st = emit (TitleLocKey a \<noteq> []) (addString ''title-loc-key'' (TitleLocKey a)) st;
          st = emit (length (TitleLocArgs a) > 0)
                 (addStringSlice ''title-loc-args'' (TitleLocArgs a)) st;
          st = emit (SubtitleLocKey a \<noteq> [])
                 (addString ''subtitle-loc-key'' (SubtitleLocKey a)) st;
          st = emit (length (SubtitleLocArgs a) > 0)
                 (addStringSlice ''subtitle-loc-args'' (SubtitleLocArgs a)) st;
          st = emit (ActionLocKey a \<noteq> []) (addString ''action-loc-key'' (ActionLocKey a)) st
      in Inr (fst st @ ''}''))"

text \<open>\<open>tmp, _ := v.MarshalJSONFast()\<close>: the bytes, with the error dropped.\<close>

definition bytes_of :: "error + string \<Rightarrow> string" where
  "bytes_of r = (case r of Inl err \<Rightarrow> [] | Inr tmp \<Rightarrow> tmp)"

subsection \<open>The recursive value encoder\<close>

primrec join_loop :: "('a \<Rightarrow> string) \<Rightarrow> string \<Rightarrow> bool \<Rightarrow> 'a list \<Rightarrow> string" where
  "join_loop f b first [] = b"
| "join_loop f b first (v2 # val) =
     join_loop f ((if \<not> first then b @ '','' else b) @ f v2) False val"

text \<open>
  \<open>EncodeValue\<close>. The loops over a \<open>[]any\<close> and over a \<open>map[string]any\<close> are
  \<open>encode_elems\<close> and \<open>encode_entries\<close>, with the loop flag (\<open>i = 0\<close>, \<open>first\<close>) as
  second argument. A nil slice or map ranges over nothing; a nil
  \<open>*notification.EpochTime\<close> is dereferenced.
\<close>

fun EncodeValue :: "string \<Rightarrow> go_value \<Rightarrow> error + string"
and encode_elems :: "string \<Rightarrow> bool \<Rightarrow> go_value list \<Rightarrow> error + string"
and encode_entries :: "string \<Rightarrow> bool \<Rightarrow> (string \<times> go_value) list \<Rightarrow> error + string"
where
  "EncodeValue b (VString val) = Inr (strconv_AppendQuote b val)"
| "EncodeValue b (VInt val) = Inr (strconv_AppendInt b val)"
| "EncodeValue b (VInt64 val) = Inr (strconv_AppendInt b val)"
| "EncodeValue b (VFloat64 val) = Inr (strconv_AppendFloat b val)"
| "EncodeValue b (VBool val) = Inr (if val then b @ ''true'' else b @ ''false'')"
| "EncodeValue b VNil = Inr (b @ ''null'')"
| "EncodeValue b (VBytes val) = Inr (strconv_AppendQuote b val)"
| "EncodeValue b (VTypedNil KBytes) = Inr (strconv_AppendQuote b [])"
| "EncodeValue b (VEpochTime val) = Inr (strconv_AppendInt b val)"
| "EncodeValue b (VEpochTimePtr val) = Inr (strconv_AppendInt b val)"
| "EncodeValue b (VTypedNil KEpochTimePtr) = Inl NilDeref"
| "EncodeValue b (VStrings val) =
     Inr (join_loop (\<lambda>v2. strconv_AppendQuote [] v2) (b @ ''['') True val @ '']'')"
| "EncodeValue b (VTypedNil KStrings) = Inr (b @ ''['' @ '']'')"
| "EncodeValue b (VInts val) = Inr (join_loop dec_int (b @ ''['') True val @ '']'')"
| "EncodeValue b (VTypedNil KInts) = Inr (b @ ''['' @ '']'')"
| "EncodeValue b (VInt64s val) = Inr (join_loop dec_int (b @ ''['') True val @ '']'')"
| "EncodeValue b (VTypedNil KInt64s) = Inr (b @ ''['' @ '']'')"
| "EncodeValue b (VFloat64s val) = Inr (join_loop format_f64 (b @ ''['') True val @ '']'')"
| "EncodeValue b (VTypedNil KFloat64s) = Inr (b @ ''['' @ '']'')"
| "EncodeValue b (VMarshaler r) =
     (case r of Inl err \<Rightarrow> Inl err | Inr marshaled \<Rightarrow> Inr (b @ marshaled))"
| "EncodeValue b (VMap val) =
     (case encode_entries (b @ ''{'') True val of
        Inl err \<Rightarrow> Inl err
      | Inr b' \<Rightarrow> Inr (b' @ ''}''))"
| "EncodeValue b (VTypedNil KMap) = Inr (b @ ''{'' @ ''}'')"
| "EncodeValue b (VList val) =
     (case encode_elems (b @ ''['') True val of
        Inl err \<Rightarrow> Inl err
      | Inr b' \<Rightarrow> Inr (b' @ '']''))"
| "EncodeValue b (VTypedNil KList) = Inr (b @ ''['' @ '']'')"
| "EncodeValue b (VTypedNil KAlertPtr) = Inl ErrInvalidType"
| "EncodeValue b (VTypedNil KSoundPtr) = Inl ErrInvalidType"
| "EncodeValue b (VAlert a) = Inl ErrInvalidType"
| "EncodeValue b (VAlertPtr a) = Inl ErrInvalidType"
| "EncodeValue b (VSound s) = Inl ErrInvalidType"
| "EncodeValue b (VSoundPtr s) = Inl ErrInvalidType"
| "EncodeValue b VOther = Inl ErrInvalidType"
| "encode_elems b first [] = Inr b"
| "encode_elems b first (v2 # val) =
     (case EncodeValue (if \<not> first then b @ '','' else b) v2 of
        Inl err \<Rightarrow> Inl err
      | Inr b' \<Rightarrow> encode_elems b' False val)"
| "encode_entries b first [] = Inr b"
| "encode_entries b first (kv # val) =
     (case EncodeValue (strconv_AppendQuote (if \<not> first then b @ '','' else b) (fst kv) @ '':'')
             (snd kv) of
        Inl err \<Rightarrow> Inl err
      | Inr b' \<Rightarrow> encode_entries b' False val)"

subsection \<open>The APS dictionary\<close>

fun alert_value :: "go_value \<Rightarrow> string \<Rightarrow> error + string" where
  "alert_value (VAlertPtr v) b = Inr (b @ bytes_of (Alert_MarshalJSONFast v))"
| "alert_value (VTypedNil KAlertPtr) b = Inl NilDeref"
| "alert_value (VAlert v) b = Inr (b @ bytes_of (Alert_MarshalJSONFast v))"
| "alert_value (VString v) b = Inr (appendQuote b v)"
| "alert_value _ b = Inl ErrInvalidType"

fun badge_value :: "go_value \<Rightarrow> string \<Rightarrow> error + string" where
  "badge_value (VInt v) b = Inr (strconv_AppendInt b v)"
| "badge_value _ b = Inl ErrInvalidType"

fun sound_value :: "go_value \<Rightarrow> string \<Rightarrow> error + string" where
  "sound_value (VSoundPtr v) b = Inr (b @ bytes_of (Sound_MarshalJSONFast v))"
| "sound_value (VTypedNil KSoundPtr) b = Inl NilDeref"
| "sound_value (VSound v) b = Inr (b @ bytes_of (Sound_MarshalJSONFast v))"
| "sound_value (VString v) b = Inr (appendQuote b v)"
| "sound_value _ b = Inl ErrInvalidType"

fun relevance_value :: "go_value \<Rightarrow> string \<Rightarrow> error + string" where
  "relevance_value (VFloat64 v) b = Inr (strconv_AppendFloat b v)"
| "relevance_value _ b = Inl ErrInvalidType"

text \<open>The loop over \<open>aps.ContentState\<close> and over \<open>aps.Attributes\<close>.\<close>

fun aps_map_loop :: "string \<Rightarrow> bool \<Rightarrow> (string \<times> go_value) list \<Rightarrow> error + string" where
  "aps_map_loop b firstMap [] = Inr b"
| "aps_map_loop b firstMap (kv # rest) =
     (case EncodeValue (appendQuote (if \<not> firstMap then b @ '','' else b) (fst kv) @ '':'')
             (snd kv) of
        Inl err \<Rightarrow> Inl err
      | Inr b' \<Rightarrow> aps_map_loop b' False rest)"

definition aps_map :: "(string \<times> go_value) list \<Rightarrow> string \<Rightarrow> error + string" where
  "aps_map m b =
     (case aps_map_loop b True m of Inl err \<Rightarrow> Inl err | Inr b' \<Rightarrow> Inr (b' @ ''}''))"

text \<open>\<open>APS.MarshalJSONFast\<close> (the pooled buffer is the local \<open>b\<close>).\<close>

definition APS_MarshalJSONFast :: "APS \<Rightarrow> error + string" where
  \<open>APS_MarshalJSONFast aps =
     then_r (emit_r (Alert aps \<noteq> VNil) (\<lambda>b. alert_value (Alert aps) (b @ ''"alert":''))
               (''{'', True)) (\<lambda>st.
     then_r (emit_r (Badge aps \<noteq> VNil) (\<lambda>b. badge_value (Badge aps) (b @ ''"badge":'')) st) (\<lambda>st.
     then_r (emit_r (Sound aps \<noteq> VNil) (\<lambda>b. sound_value (Sound aps) (b @ ''"sound":'')) st) (\<lambda>st.
     let st = emit (ContentAvailable aps \<noteq> VNil) (\<lambda>b. b @ ''"content-available":1'') st;
         st = emit (MutableContent aps \<noteq> VNil) (\<lambda>b. b @ ''"mutable-content":1'') st;
         st = emit (Category aps \<noteq> []) (\<lambda>b. appendQuote (b @ ''"category":'') (Category aps)) st;
         st = emit (ThreadID aps \<noteq> []) (\<lambda>b. appendQuote (b @ ''"thread-id":'') (ThreadID aps)) st;
         st = emit (InterruptionLevel aps \<noteq> [])
                (\<lambda>b. appendQuote (b @ ''"interruption-level":'') (InterruptionLevel aps)) st
     in
     then_r (emit_r (RelevanceScore aps \<noteq> VNil)
               (\<lambda>b. relevance_value (RelevanceScore aps) (b @ ''"relevance-score":'')) st) (\<lambda>st.
     let st = emit (StaleDate aps \<noteq> None)
                (\<lambda>b. strconv_AppendInt (b @ ''"stale-date":'') (the (StaleDate aps))) st;
         st = emit (length (FilterCriteria aps) > 0)
                (\<lambda>b. appendQuote (b @ ''"filter-criteria":'') (FilterCriteria aps)) st;
         st = emit (Timestamp aps \<noteq> None)
                (\<lambda>b. strconv_AppendInt (b @ ''"timestamp":'') (the (Timestamp aps))) st;
         st = emit (TargetContentID aps \<noteq> [])
                (\<lambda>b. appendQuote (b @ ''"target-content-id":'') (TargetContentID aps)) st
     in
     then_r (emit_r (length (ContentState aps) > 0)
               (\<lambda>b. aps_map (ContentState aps) (b @ ''"content-state":{'')) st) (\<lambda>st.
     let st = emit (Event aps \<noteq> []) (\<lambda>b. appendQuote (b @ ''"event":'') (Event aps)) st;
         st = emit (DismissalDate aps \<noteq> 0)
                (\<lambda>b. strconv_AppendInt (b @ ''"dismissal-date":'') (DismissalDate aps)) st;
         st = emit (AttributesType aps \<noteq> [])
                (\<lambda>b. appendQuote (b @ ''"attributes-type":'') (AttributesType aps)) st
     in
     then_r (emit_r (length (Attributes aps) > 0)
               (\<lambda>b. aps_map (Attributes aps) (b @ ''"attributes":{'')) st) (\<lambda>st.
     Inr (fst st @ ''}'')))))))\<close>

subsection \<open>The payload\<close>

record Payload =
  APS :: APS
  CustomData :: "(string \<times> go_value) list"

text \<open>\<open>marshalCustomData\<close> (payload_marshal.go): the loop over the map.\<close>

fun marshalCustomData_loop ::
  "string \<times> bool \<Rightarrow> (string \<times> go_value) list \<Rightarrow> error + string" where
  "marshalCustomData_loop st [] = Inr (fst st)"
| "marshalCustomData_loop st (kv # data) =
     (case addComma st of (b, first) \<Rightarrow>
        (case EncodeValue (customData_appendQuote b (fst kv) @ '':'') (snd kv) of
           Inl err \<Rightarrow> Inl err
         | Inr b' \<Rightarrow> marshalCustomData_loop (b', first) data))"

definition marshalCustomData :: "string \<Rightarrow> (string \<times> go_value) list \<Rightarrow> error + string" where
  "marshalCustomData b data = marshalCustomData_loop (b, True) data"

text \<open>\<open>Payload.MarshalJSONFast\<close> (payload_marshal.go).\<close>

definition Payload_MarshalJSONFast :: "Payload \<Rightarrow> error + string" where
  \<open>Payload_MarshalJSONFast p =
     (case APS_MarshalJSONFast (APS p) of
        Inl err \<Rightarrow> Inl err
      | Inr apsBytes \<Rightarrow>
          (case (if length (CustomData p) > 0 then marshalCustomData [] (CustomData p)
                 else Inr [])
           of Inl err \<Rightarrow> Inl err
            | Inr customDataBytes \<Rightarrow>
                (let b = ''{'' @ ''"aps":'' @ apsBytes;
                     b = (if length (CustomData p) > 0 then b @ '','' @ customDataBytes else b)
                 in Inr (b @ ''}''))))\<close>

subsection \<open>The standard marshaler of the payload\<close>

text \<open>
  \<open>Payload.MarshalJSON\<close> (payload.go) builds a \<open>map[string]any\<close> and hands it to
  \<open>json.Marshal\<close>. A Go map is a reference: the heap is the list of the maps allocated so
  far, an address is an index into it, and a payload as the method sees it holds the
  address of its custom data (\<open>None\<close> for the nil map). A value of the built map is a
  dynamic value or the \<open>payload.APS\<close> struct.
\<close>

datatype map_value = Dyn go_value | APSStruct APS

type_synonym go_map = "(string \<times> map_value) list"
type_synonym heap = "go_map list"

record PayloadRef =
  ref_APS :: APS
  ref_CustomData :: "nat option"

text \<open>\<open>len(m)\<close>, \<open>maps.Clone(m)\<close> for a non-nil map, and \<open>m[k] = v\<close>.\<close>

definition map_len :: "heap \<Rightarrow> nat option \<Rightarrow> nat" where
  "map_len h m = (case m of None \<Rightarrow> 0 | Some a \<Rightarrow> length (h ! a))"

definition maps_Clone :: "heap \<Rightarrow> nat \<Rightarrow> heap \<times> nat" where
  "maps_Clone h a = (h @ [h ! a], length h)"

fun entries_put :: "string \<Rightarrow> map_value \<Rightarrow> go_map \<Rightarrow> go_map" where
  "entries_put k v [] = [(k, v)]"
| "entries_put k v (kv # m) = (if fst kv = k then (k, v) # m else kv # entries_put k v m)"

definition map_store :: "heap \<Rightarrow> nat \<Rightarrow> string \<Rightarrow> map_value \<Rightarrow> heap" where
  "map_store h a k v = h[a := entries_put k v (h ! a)]"

text \<open>
  \<open>Payload.MarshalJSON\<close>, with \<open>json.Marshal\<close> as the parameter \<open>marshal\<close>: the result of
  the call and the heap it leaves.
\<close>

definition Payload_MarshalJSON :: "(go_map \<Rightarrow> 'r) \<Rightarrow> heap \<Rightarrow> PayloadRef \<Rightarrow> 'r \<times> heap" where
  "Payload_MarshalJSON marshal h p =
     (if map_len h (ref_CustomData p) = 0 then
        (let h1 = h @ [[(''aps'', APSStruct (ref_APS p))]]
         in (marshal (h1 ! length h), h1))
      else
        (case maps_Clone h (the (ref_CustomData p)) of
           (h1, mp) \<Rightarrow>
             (let h2 = map_store h1 mp ''aps'' (APSStruct (ref_APS p))
              in (marshal (h2 ! mp), h2))))"

section \<open>The client\<close>

text \<open>Push types (package notification); \<open>PushType\<close> is an alias of \<open>string\<close>.\<close>

type_synonym PushType = string

definition Voip :: PushType where "Voip = ''voip''"
definition Location :: PushType where "Location = ''location''"
definition Alert_type :: PushType where "Alert_type = ''alert''"

text \<open>
  The notification envelope. Its declaration, \<open>Validate\<close>, \<open>Topic\<close> and \<open>Clone\<close> are not
  among the sources; the fields are those \<open>client.go\<close> and the tests use. \<open>Payload\<close> is a
  pointer.
\<close>

record Notification =
  BundleID :: string
  DeviceToken :: string
  Type :: PushType
  APNsID :: string
  CollapseID :: string
  Payload :: "Payload option"

record Response =
  DeviceToken :: string
  UniqueID :: string
  APNsID :: string

text \<open>The request handed to the transport: the device token in the path, the push
  type header and the body.\<close>

record Request =
  req_token :: string
  req_push_type :: string
  req_body :: string

text \<open>The answer of the transport: status, the two headers read, the body, and the
  error of reading the body, if any.\<close>

record HTTPResponse =
  StatusCode :: int
  apns_id :: string
  apns_unique_id :: string
  resp_body :: string
  read_error :: "string option"

text \<open>
  Errors of the client. \<open>Validation e\<close> is an error of \<open>Notification.Validate\<close>,
  \<open>Marshal e\<close> is "fail to marshal json", \<open>SendFailed\<close> is "failed to send APNs request"
  wrapped around the error of \<open>cli.do\<close>, \<open>TransportErr\<close> is the error of \<open>cli.do\<close> as it is,
  \<open>APNsError\<close> is the typed \<open>*Error\<close>, and \<open>MultiError\<close> carries the map \<open>Failures\<close> as
  an association list with distinct keys.
\<close>

datatype client_error =
    TokenListEmpty
  | TokenLimitExceeded nat int
  | Validation string
  | LocationNotAllowed
  | Marshal error
  | PayloadTooLargeVoip nat
  | PayloadTooLarge nat
  | RequestFailed string
  | SendFailed string
  | TransportErr string
  | ReadFailed string
  | EmptyBody int
  | ParseFailed int
  | APNsError int string int
  | HTTPFailed int
  | ContextErr string
  | MultiError "(string \<times> client_error) list"

record Client =
  TokenLimits :: int
  TokenBase :: bool
  FastJson :: bool
  Development :: bool

text \<open>
  What the client calls outside the sources: \<open>Notification.Validate\<close>,
  \<open>json.Marshal\<close> on the payload pointer, \<open>http.NewRequestWithContext\<close> (which may
  reject the URL built from the token), the transport behind \<open>cli.do\<close>,
  \<open>json.Unmarshal\<close> of an error body into its reason and timestamp, and \<open>ctx.Err()\<close> as
  the goroutine of the i-th remaining token observes it.
\<close>

record Env =
  n_Validate :: "Notification \<Rightarrow> string option"
  json_Marshal :: "Payload option \<Rightarrow> error + string"
  new_request_error :: "string \<Rightarrow> string option"
  transport :: "Request \<Rightarrow> string + HTTPResponse"
  json_Unmarshal :: "string \<Rightarrow> (string \<times> int) option"
  ctx_Err :: "nat \<Rightarrow> string option"

text \<open>\<open>Client.handleResponse\<close>.\<close>

definition handleResponse :: "Client \<Rightarrow> Env \<Rightarrow> HTTPResponse \<Rightarrow> Response \<times> client_error option" where
  "handleResponse cli env resp =
     (let response = \<lparr> DeviceToken = [],
                        UniqueID = (if Development cli then apns_unique_id resp else []),
                        APNsID = apns_id resp \<rparr>
      in case read_error resp of
           Some err \<Rightarrow> (response, Some (ReadFailed err))
         | None \<Rightarrow>
             if StatusCode resp = 200 then (response, None)
             else if length (resp_body resp) = 0 then (response, Some (EmptyBody (StatusCode resp)))
             else (case json_Unmarshal env (resp_body resp) of
                     None \<Rightarrow> (response, Some (ParseFailed (StatusCode resp)))
                   | Some (reason, timestamp) \<Rightarrow>
                       if reason \<noteq> [] then
                         (response, Some (APNsError (StatusCode resp) reason timestamp))
                       else (response, Some (HTTPFailed (StatusCode resp)))))"

text \<open>\<open>Client.newBody\<close>. \<open>MarshalJSONFast\<close> has a value receiver, so a nil payload
  pointer is dereferenced.\<close>

definition marshal_payload :: "Client \<Rightarrow> Env \<Rightarrow> Notification \<Rightarrow> error + string" where
  "marshal_payload cli env n =
     (if FastJson cli then
        (case Payload n of None \<Rightarrow> Inl NilDeref | Some p \<Rightarrow> Payload_MarshalJSONFast p)
      else json_Marshal env (Payload n))"

definition newBody :: "Client \<Rightarrow> Env \<Rightarrow> Notification \<Rightarrow> client_error + string" where
  "newBody cli env n =
     (case marshal_payload cli env n
      of Inl err \<Rightarrow> Inl (Marshal err)
       | Inr body \<Rightarrow>
           if Type n = Voip then
             (if length body > 5120 then Inl (PayloadTooLargeVoip (length body)) else Inr body)
           else
             (if length body > 4096 then Inl (PayloadTooLarge (length body)) else Inr body))"

text \<open>\<open>Client.newRequest\<close>; the optional headers do not influence what follows.\<close>

definition newRequest :: "Client \<Rightarrow> Env \<Rightarrow> Notification \<Rightarrow> string \<Rightarrow> client_error + Request" where
  "newRequest cli env n body =
     (case new_request_error env (Notification.DeviceToken n) of
        Some err \<Rightarrow> Inl (RequestFailed err)
      | None \<Rightarrow> Inr \<lparr> req_token = Notification.DeviceToken n, req_push_type = Type n, req_body = body \<rparr>)"

text \<open>
  \<open>Client.Push\<close>. The result is the pair the Go function returns (a nil \<open>*Response\<close> is
  \<open>None\<close>), together with the list of requests handed to the transport.
\<close>

definition Push ::
  "Client \<Rightarrow> Env \<Rightarrow> Notification \<Rightarrow> (Response option \<times> client_error option) \<times> Request list" where
  "Push cli env n =
     (case n_Validate env n of
        Some err \<Rightarrow> ((None, Some (Validation err)), [])
      | None \<Rightarrow>
          if Type n = Location \<and> \<not> TokenBase cli then ((None, Some LocationNotAllowed), [])
          else (case newBody cli env n of
                  Inl err \<Rightarrow> ((None, Some err), [])
                | Inr body \<Rightarrow>
                    (case newRequest cli env n body of
                       Inl err \<Rightarrow> ((None, Some err), [])
                     | Inr req \<Rightarrow>
                         (case transport env req of
                            Inl err \<Rightarrow> ((None, Some (SendFailed err)), [req])
                          | Inr resp \<Rightarrow>
                              (case handleResponse cli env resp of
                                 (response, err) \<Rightarrow> ((Some response, err), [req]))))))"

text \<open>
  One goroutine of \<open>PushMulti\<close>, for the i-th remaining token: the value it sends on the
  channel \<open>results\<close> (token, response, error) and the request it hands to the transport,
  if it gets that far.
\<close>

definition send_one ::
  "Client \<Rightarrow> Env \<Rightarrow> Notification \<Rightarrow> string \<Rightarrow> nat \<Rightarrow> string
     \<Rightarrow> (string \<times> Response option \<times> client_error option) \<times> Request list" where
  "send_one cli env n body i token =
     (case ctx_Err env i of
        Some err \<Rightarrow> ((token, None, Some (ContextErr err)), [])
      | None \<Rightarrow>
          (let notification = n\<lparr>Notification.DeviceToken := token\<rparr>
           in case newRequest cli env notification body of
                Inl err \<Rightarrow> ((token, None, Some err), [])
              | Inr req \<Rightarrow>
                  (case transport env req of
                     Inl err \<Rightarrow> ((token, None, Some (TransportErr err)), [req])
                   | Inr resp \<Rightarrow>
                       (case handleResponse cli env resp of
                          (response, err) \<Rightarrow> ((token, Some response, err), [req])))))"

text \<open>The two errors of the size check, and what one result adds to \<open>successes\<close>.\<close>

fun is_size_error :: "client_error \<Rightarrow> bool" where
  "is_size_error (PayloadTooLargeVoip k) = True"
| "is_size_error (PayloadTooLarge k) = True"
| "is_size_error _ = False"

fun success_of :: "string \<times> Response option \<times> client_error option \<Rightarrow> Response list" where
  "success_of (token, Some response, None) = [response\<lparr>DeviceToken := token\<rparr>]"
| "success_of _ = []"

fun failed :: "string \<times> Response option \<times> client_error option \<Rightarrow> bool" where
  "failed (token, resp, err) = (err \<noteq> None)"

text \<open>\<open>failures[res.Token] = res.Err\<close> on the association list.\<close>

fun map_put :: "string \<Rightarrow> client_error \<Rightarrow> (string \<times> client_error) list \<Rightarrow> (string \<times> client_error) list" where
  "map_put k v [] = [(k, v)]"
| "map_put k v (kv # m) = (if fst kv = k then (k, v) # m else kv # map_put k v m)"

text \<open>The loop \<open>for res := range results\<close>.\<close>

fun collect ::
  "(string \<times> Response option \<times> client_error option) list
     \<Rightarrow> (string \<times> client_error) list \<times> Response list
     \<Rightarrow> (string \<times> client_error) list \<times> Response list" where
  "collect [] acc = acc"
| "collect ((token, resp, err) # results) (failures, successes) =
     (case err of
        Some e \<Rightarrow> collect results (map_put token e failures, successes)
      | None \<Rightarrow>
          (case resp of
             Some response \<Rightarrow>
               collect results (failures, successes @ [response\<lparr>DeviceToken := token\<rparr>])
           | None \<Rightarrow> collect results (failures, successes)))"

text \<open>
  \<open>Client.PushMulti\<close>. The goroutines of the remaining tokens run concurrently; \<open>sched\<close>
  lists their indices in the order in which their results arrive on the channel, a
  permutation of \<open>[0..<length remaining]\<close>. The result is the pair the Go function
  returns (a nil slice is \<open>[]\<close>), together with the requests handed to the transport.
\<close>

definition PushMulti ::
  "Client \<Rightarrow> Env \<Rightarrow> Notification \<Rightarrow> string list \<Rightarrow> nat list
     \<Rightarrow> (Response list \<times> client_error option) \<times> Request list" where
  "PushMulti cli env n tokens sched =
     (if length tokens = 0 then (([], Some TokenListEmpty), [])
      else if int (length tokens) > TokenLimits cli then
        (([], Some (TokenLimitExceeded (length tokens) (TokenLimits cli))), [])
      else
        (let firstToken = tokens ! 0;
             n = n\<lparr>Notification.DeviceToken := firstToken\<rparr>
         in case n_Validate env n of
              Some err \<Rightarrow> (([], Some (Validation err)), [])
            | None \<Rightarrow>
                if Type n = Location \<and> \<not> TokenBase cli then (([], Some LocationNotAllowed), [])
                else (case newBody cli env n of
                  Inl err \<Rightarrow> (([], Some err), [])
                | Inr body \<Rightarrow>
                    (case newRequest cli env n body of
                       Inl err \<Rightarrow> (([], Some err), [])
                     | Inr req \<Rightarrow>
                         (case transport env req of
                            Inl err \<Rightarrow> (([], Some (SendFailed err)), [req])
                          | Inr resp \<Rightarrow>
                              (case handleResponse cli env resp of
                                 (response, Some err) \<Rightarrow> (([response], Some err), [req])
                               | (response, None) \<Rightarrow>
                                   (let successes = [response\<lparr>DeviceToken := firstToken\<rparr>];
                                        remaining = drop 1 tokens;
                                        runs = map (\<lambda>i. send_one cli env n body i (remaining ! i)) sched;
                                        results = map fst runs;
                                        sent = concat (map snd runs);
                                        (failures, successes) = collect results ([], successes)
                                    in if length failures > 0 then
                                         ((successes, Some (MultiError failures)), req # sent)
                                       else ((successes, None), req # sent))))))))"

text \<open>The result the goroutine of the i-th remaining token puts on the channel.\<close>

definition outcome ::
  "Client \<Rightarrow> Env \<Rightarrow> Notification \<Rightarrow> string \<Rightarrow> string list \<Rightarrow> nat
     \<Rightarrow> string \<times> Response option \<times> client_error option" where
  "outcome cli env n body remaining i = fst (send_one cli env n body i (remaining ! i))"

subsection \<open>The mock server of the client tests\<close>

text \<open>
  The server of \<open>TestClient_PushMulti\<close>: status 200 for the accepted tokens, 400 with
  reason BadDeviceToken for \<open>fail-device\<close>, 500 with reason InternalServerError for
  \<open>token-fail-server-error\<close>. \<open>fixed_body_env\<close> is the same environment with a standard
  encoder that returns a given body.
\<close>

definition bad_device_token_body :: string where
  \<open>bad_device_token_body = ''{"reason":"BadDeviceToken"}''\<close>

definition internal_server_error_body :: string where
  \<open>internal_server_error_body = ''{"reason":"InternalServerError"}''\<close>

definition mock_transport :: "Request \<Rightarrow> string + HTTPResponse" where
  "mock_transport req =
     (if req_token req = ''fail-device'' then
        Inr \<lparr> StatusCode = 400, apns_id = ''fail-apns-id'', apns_unique_id = [],
              resp_body = bad_device_token_body, read_error = None \<rparr>
      else if req_token req = ''token-fail-server-error'' then
        Inr \<lparr> StatusCode = 500, apns_id = [], apns_unique_id = [],
              resp_body = internal_server_error_body, read_error = None \<rparr>
      else
        Inr \<lparr> StatusCode = 200, apns_id = ''success-apns-id'', apns_unique_id = [],
              resp_body = [], read_error = None \<rparr>)"

definition mock_Unmarshal :: "string \<Rightarrow> (string \<times> int) option" where
  "mock_Unmarshal b =
     (if b = bad_device_token_body then Some (''BadDeviceToken'', 0)
      else if b = internal_server_error_body then Some (''InternalServerError'', 0)
      else None)"

definition fixed_body_env :: "string \<Rightarrow> Env" where
  "fixed_body_env b =
     \<lparr> n_Validate = (\<lambda>n. None), json_Marshal = (\<lambda>p. Inr b),
       new_request_error = (\<lambda>t. None), transport = mock_transport,
       json_Unmarshal = mock_Unmarshal, ctx_Err = (\<lambda>i. None) \<rparr>"

definition mock_env :: Env where
  "mock_env = fixed_body_env ''{}''"

definition test_client :: "bool \<Rightarrow> Client" where
  "test_client fast = \<lparr> TokenLimits = 100, TokenBase = True, FastJson = fast, Development = False \<rparr>"

definition base_payload :: Payload where
  "base_payload = \<lparr> APS = APS_zero\<lparr>Alert := VString ''test''\<rparr>, CustomData = [] \<rparr>"

definition base_body :: string where
  \<open>base_body = ''{"aps":{"alert":"test"}}''\<close>

definition base_notification :: Notification where
  "base_notification =
     \<lparr> BundleID = ''com.example.app'', DeviceToken = [], Type = Alert_type, APNsID = [],
       CollapseID = [], Payload = Some base_payload \<rparr>"

definition accepted :: "string \<Rightarrow> Response" where
  "accepted token = \<lparr> DeviceToken = token, UniqueID = [], APNsID = ''success-apns-id'' \<rparr>"

definition test_notification :: "PushType \<Rightarrow> Notification" where
  "test_notification t =
     \<lparr> BundleID = ''com.example.app'', DeviceToken = [], Type = t, APNsID = [],
       CollapseID = [], Payload = None \<rparr>"

section \<open>Reading JSON back\<close>

text \<open>
  The structure a JSON text denotes: numbers by their exact decimal value, strings as byte
  sequences, object members in the order of the text.
\<close>

datatype json =
    JNull
  | JBool bool
  | JNum rat
  | JStr string
  | JArr "json list"
  | JObj "(string \<times> json) list"

text \<open>
  A reader of compact JSON texts (RFC 8259 without insignificant whitespace, which none
  of the encoders emits). Inside a string, a control character must be escaped, the
  escapes are \<open>\" \\ \/ \b \f \n \r \t\<close> and \<open>\uXXXX\<close>, and a \<open>\u\<close> escape stands for
  the UTF-8 encoding of its code point; surrogate escapes, which no encoder here emits,
  are not read.
\<close>

definition hex_digit :: "char \<Rightarrow> nat option" where
  "hex_digit c =
     (let n = (of_char c :: nat) in
      if 48 \<le> n \<and> n \<le> 57 then Some (n - 48)
      else if 97 \<le> n \<and> n \<le> 102 then Some (n - 87)
      else if 65 \<le> n \<and> n \<le> 70 then Some (n - 55)
      else None)"

definition hex4 :: "char \<Rightarrow> char \<Rightarrow> char \<Rightarrow> char \<Rightarrow> nat option" where
  "hex4 a b c d =
     (case (hex_digit a, hex_digit b, hex_digit c, hex_digit d) of
        (Some x, Some y, Some z, Some w) \<Rightarrow> Some (((x * 16 + y) * 16 + z) * 16 + w)
      | _ \<Rightarrow> None)"

definition utf8_encode :: "nat \<Rightarrow> string option" where
  "utf8_encode n =
     (if n < 0x80 then Some [char_of n]
      else if n < 0x800 then Some [char_of (0xC0 + n div 64), char_of (0x80 + n mod 64)]
      else if 0xD800 \<le> n \<and> n < 0xE000 then None
      else Some [char_of (0xE0 + n div 4096), char_of (0x80 + (n div 64) mod 64),
                 char_of (0x80 + n mod 64)])"

definition unescape :: "char \<Rightarrow> char option" where
  "unescape e =
     (if e = dquote then Some dquote
      else if e = bslash then Some bslash
      else if e = CHR ''/'' then Some (CHR ''/'')
      else if e = CHR ''b'' then Some (CHR 0x08)
      else if e = CHR ''f'' then Some (CHR 0x0C)
      else if e = CHR ''n'' then Some (CHR 0x0A)
      else if e = CHR ''r'' then Some (CHR 0x0D)
      else if e = CHR ''t'' then Some (CHR 0x09)
      else None)"

definition prepend :: "string \<Rightarrow> (string \<times> string) option \<Rightarrow> (string \<times> string) option" where
  "prepend bs r = (case r of None \<Rightarrow> None | Some (s, rest) \<Rightarrow> Some (bs @ s, rest))"

text \<open>The characters of a string after its opening quote, up to the closing quote.\<close>

fun parse_chars :: "string \<Rightarrow> (string \<times> string) option" where
  "parse_chars [] = None"
| "parse_chars (c # cs) =
     (if c = dquote then Some ([], cs)
      else if c = bslash then
        (case cs of
           [] \<Rightarrow> None
         | e # cs1 \<Rightarrow>
             if e = CHR ''u'' then
               (case cs1 of
                  h1 # h2 # h3 # h4 # cs2 \<Rightarrow>
                    (case hex4 h1 h2 h3 h4 of
                       None \<Rightarrow> None
                     | Some n \<Rightarrow>
                         (case utf8_encode n of
                            None \<Rightarrow> None
                          | Some bs \<Rightarrow> prepend bs (parse_chars cs2)))
                | _ \<Rightarrow> None)
             else
               (case unescape e of
                  None \<Rightarrow> None
                | Some ch \<Rightarrow> prepend [ch] (parse_chars cs1)))
      else if (of_char c :: nat) < 0x20 then None
      else prepend [c] (parse_chars cs))"

definition is_digit :: "char \<Rightarrow> bool" where
  "is_digit c = (48 \<le> (of_char c :: nat) \<and> (of_char c :: nat) \<le> 57)"

definition digit_val :: "char \<Rightarrow> nat" where
  "digit_val c = of_char c - 48"

definition digits_val :: "string \<Rightarrow> nat" where
  "digits_val ds = foldl (\<lambda>a c. 10 * a + digit_val c) 0 ds"

text \<open>
  A number: an optional minus sign, an integer part without leading zero, an optional
  fraction and an optional exponent. \<open>parse_frac\<close> returns the digits of the fraction
  (none if there is no fraction), \<open>parse_exp\<close> the exponent (0 if there is none).
\<close>

definition parse_sign :: "string \<Rightarrow> bool \<times> string" where
  "parse_sign s = (if s \<noteq> [] \<and> hd s = CHR ''-'' then (True, tl s) else (False, s))"

definition parse_int_part :: "string \<Rightarrow> (string \<times> string) option" where
  "parse_int_part s =
     (let ip = takeWhile is_digit s
      in if ip = [] \<or> (length ip > 1 \<and> hd ip = CHR ''0'') then None
         else Some (ip, dropWhile is_digit s))"

definition parse_frac :: "string \<Rightarrow> (string \<times> string) option" where
  "parse_frac s =
     (if s \<noteq> [] \<and> hd s = CHR ''.'' then
        (let fp = takeWhile is_digit (tl s)
         in if fp = [] then None else Some (fp, dropWhile is_digit (tl s)))
      else Some ([], s))"

definition parse_exp :: "string \<Rightarrow> (int \<times> string) option" where
  "parse_exp s =
     (if s \<noteq> [] \<and> (hd s = CHR ''e'' \<or> hd s = CHR ''E'') then
        (let (eneg, s1) =
               (if tl s \<noteq> [] \<and> hd (tl s) = CHR ''-'' then (True, tl (tl s))
                else if tl s \<noteq> [] \<and> hd (tl s) = CHR ''+'' then (False, tl (tl s))
                else (False, tl s));
             ep = takeWhile is_digit s1
         in if ep = [] then None
            else Some (if eneg then - int (digits_val ep) else int (digits_val ep),
                       dropWhile is_digit s1))
      else Some (0, s))"

definition number_value :: "bool \<Rightarrow> string \<Rightarrow> string \<Rightarrow> int \<Rightarrow> rat" where
  "number_value neg ip fp ex =
     (let mant = (of_nat (digits_val ip) :: rat) + of_nat (digits_val fp) / 10 ^ length fp;
          scaled = (if ex < 0 then mant / 10 ^ nat (- ex) else mant * 10 ^ nat ex)
      in if neg then - scaled else scaled)"

definition parse_number :: "string \<Rightarrow> (rat \<times> string) option" where
  "parse_number s =
     (case parse_sign s of
        (neg, s1) \<Rightarrow>
          (case parse_int_part s1 of
             None \<Rightarrow> None
           | Some (ip, s2) \<Rightarrow>
               (case parse_frac s2 of
                  None \<Rightarrow> None
                | Some (fp, s3) \<Rightarrow>
                    (case parse_exp s3 of
                       None \<Rightarrow> None
                     | Some (ex, s4) \<Rightarrow> Some (number_value neg ip fp ex, s4)))))"

definition tag :: "('a \<Rightarrow> 'b) \<Rightarrow> ('a \<times> string) option \<Rightarrow> ('b \<times> string) option" where
  "tag f r = (case r of None \<Rightarrow> None | Some (x, rest) \<Rightarrow> Some (f x, rest))"

text \<open>
  Values, the elements of a non-empty array and the members of a non-empty object. The
  first argument bounds the nesting and the number of elements; the length of the text is
  always enough.
\<close>

fun parse_value :: "nat \<Rightarrow> string \<Rightarrow> (json \<times> string) option"
and parse_elems :: "nat \<Rightarrow> string \<Rightarrow> (json list \<times> string) option"
and parse_members :: "nat \<Rightarrow> string \<Rightarrow> ((string \<times> json) list \<times> string) option"
where
  "parse_value 0 s = None"
| "parse_value (Suc n) [] = None"
| "parse_value (Suc n) (c # cs) =
     (if c = CHR ''n'' then (if take 3 cs = ''ull'' then Some (JNull, drop 3 cs) else None)
      else if c = CHR ''t'' then (if take 3 cs = ''rue'' then Some (JBool True, drop 3 cs) else None)
      else if c = CHR ''f'' then
        (if take 4 cs = ''alse'' then Some (JBool False, drop 4 cs) else None)
      else if c = dquote then tag JStr (parse_chars cs)
      else if c = CHR ''['' then
        (if cs \<noteq> [] \<and> hd cs = CHR '']'' then Some (JArr [], tl cs)
         else tag JArr (parse_elems n cs))
      else if c = CHR ''{'' then
        (if cs \<noteq> [] \<and> hd cs = CHR ''}'' then Some (JObj [], tl cs)
         else tag JObj (parse_members n cs))
      else tag JNum (parse_number (c # cs)))"
| "parse_elems 0 s = None"
| "parse_elems (Suc n) s =
     (case parse_value n s of
        None \<Rightarrow> None
      | Some (v, r) \<Rightarrow>
          if r \<noteq> [] \<and> hd r = CHR '','' then tag (Cons v) (parse_elems n (tl r))
          else if r \<noteq> [] \<and> hd r = CHR '']'' then Some ([v], tl r)
          else None)"
| "parse_members 0 s = None"
| "parse_members (Suc n) s =
     (if s \<noteq> [] \<and> hd s = dquote then
        (case parse_chars (tl s) of
           None \<Rightarrow> None
         | Some (k, s1) \<Rightarrow>
             if s1 \<noteq> [] \<and> hd s1 = CHR '':'' then
               (case parse_value n (tl s1) of
                  None \<Rightarrow> None
                | Some (v, r) \<Rightarrow>
                    if r \<noteq> [] \<and> hd r = CHR '','' then tag (Cons (k, v)) (parse_members n (tl r))
                    else if r \<noteq> [] \<and> hd r = CHR ''}'' then Some ([(k, v)], tl r)
                    else None)
             else None)
      else None)"

definition parse_json :: "string \<Rightarrow> json option" where
  "parse_json s =
     (case parse_value (length s) s of
        Some (j, rest) \<Rightarrow> if rest = [] then Some j else None
      | None \<Rightarrow> None)"

text \<open>No object of the structure, at any nesting level, has the same key twice.\<close>

fun no_dup_keys :: "json \<Rightarrow> bool" where
  "no_dup_keys (JArr vs) = (\<forall>v \<in> set vs. no_dup_keys v)"
| "no_dup_keys (JObj kvs) = (distinct (map fst kvs) \<and> (\<forall>kv \<in> set kvs. no_dup_keys (snd kv)))"
| "no_dup_keys _ = True"

text \<open>A text is a single well-formed JSON object without a repeated key.\<close>

definition well_formed_object :: "string \<Rightarrow> bool" where
  "well_formed_object s =
     (case parse_json s of
        Some (JObj kvs) \<Rightarrow> no_dup_keys (JObj kvs)
      | _ \<Rightarrow> False)"

section \<open>The reflective encoder\<close>

text \<open>
  \<open>encoding/json\<close> is the Go standard library. What \<open>json.Marshal\<close> produces is modelled
  by the structure its output denotes, from the struct tags of the source and the
  library's documentation: a field tagged \<open>omitempty\<close> is left out when it is the empty
  string, zero, a nil pointer or interface, or an empty slice or map; a nil pointer,
  slice or map that is not left out is \<open>null\<close>; a byte slice is its base64 text; a
  \<open>json.Marshaler\<close> contributes the value its own text denotes; NaN and the infinities are
  an error. \<open>None\<close> is an error, or a value outside this model (\<open>VOther\<close>). Strings are
  compared as byte sequences and taken to be valid UTF-8: the replacement character that
  the library writes for an invalid byte is outside this model. Negative zero is written
  \<open>-0\<close>, which denotes the number 0.
\<close>

definition b64_char :: "nat \<Rightarrow> char" where
  "b64_char n = ''ABCDEFGHIJKLMNOPQRSTUVWXYZabcdefghijklmnopqrstuvwxyz0123456789+/'' ! n"

fun base64 :: "nat list \<Rightarrow> string" where
  "base64 [] = []"
| "base64 [a] = [b64_char (a div 4), b64_char ((a mod 4) * 16), CHR ''='', CHR ''='']"
| "base64 [a, b] =
     [b64_char (a div 4), b64_char ((a mod 4) * 16 + b div 16), b64_char ((b mod 16) * 4),
      CHR ''='']"
| "base64 (a # b # c # rest) =
     [b64_char (a div 4), b64_char ((a mod 4) * 16 + b div 16),
      b64_char ((b mod 16) * 4 + c div 64), b64_char (c mod 64)] @ base64 rest"

text \<open>The members of a struct: the fields that are not left out, in declaration order.\<close>

fun members :: "(string \<times> json option) list \<Rightarrow> (string \<times> json) list" where
  "members [] = []"
| "members ((k, None) # fs) = members fs"
| "members ((k, Some j) # fs) = (k, j) # members fs"

definition str_field :: "string \<Rightarrow> json option" where
  "str_field s = (if s = [] then None else Some (JStr s))"

definition strs_field :: "string list \<Rightarrow> json option" where
  "strs_field ss = (if ss = [] then None else Some (JArr (map JStr ss)))"

definition int_field :: "int \<Rightarrow> json option" where
  "int_field i = (if i = 0 then None else Some (JNum (of_int i)))"

definition std_Alert :: "Alert \<Rightarrow> json" where
  "std_Alert a = JObj (members
     [(''title'', str_field (Title a)),
      (''subtitle'', str_field (Subtitle a)),
      (''body'', str_field (Body a)),
      (''launch-image'', str_field (LaunchImage a)),
      (''action-loc-key'', str_field (ActionLocKey a)),
      (''loc-key'', str_field (LocKey a)),
      (''loc-args'', strs_field (LocArgs a)),
      (''title-loc-key'', str_field (TitleLocKey a)),
      (''title-loc-args'', strs_field (TitleLocArgs a)),
      (''subtitle-loc-key'', str_field (SubtitleLocKey a)),
      (''subtitle-loc-args'', strs_field (SubtitleLocArgs a))])"

fun std_float64 :: "float64 \<Rightarrow> json option" where
  "std_float64 (Fin m e) = Some (JNum (f64_val m e))"
| "std_float64 NegZero = Some (JNum 0)"
| "std_float64 _ = None"

definition std_Sound :: "Sound \<Rightarrow> json option" where
  "std_Sound s =
     (case std_float64 (Volume s) of
        None \<Rightarrow> None
      | Some vol \<Rightarrow>
          Some (JObj (members
            [(''name'', str_field (Name s)),
             (''critical'', int_field (Critical s)),
             (''volume'', if f64_nonzero (Volume s) then Some vol else None)])))"

text \<open>All results, or \<open>None\<close> if one of them is \<open>None\<close>.\<close>

fun all_some :: "'a option list \<Rightarrow> 'a list option" where
  "all_some [] = Some []"
| "all_some (None # xs) = None"
| "all_some (Some x # xs) = (case all_some xs of None \<Rightarrow> None | Some ys \<Rightarrow> Some (x # ys))"

definition keyed :: "string \<Rightarrow> json option \<Rightarrow> (string \<times> json) option" where
  "keyed k r = (case r of None \<Rightarrow> None | Some j \<Rightarrow> Some (k, j))"

fun std_value :: "go_value \<Rightarrow> json option" where
  "std_value VNil = Some JNull"
| "std_value (VTypedNil k) = Some JNull"
| "std_value (VString s) = Some (JStr s)"
| "std_value (VInt i) = Some (JNum (of_int i))"
| "std_value (VInt64 i) = Some (JNum (of_int i))"
| "std_value (VFloat64 f) = std_float64 f"
| "std_value (VBool b) = Some (JBool b)"
| "std_value (VBytes s) = Some (JStr (base64 (map of_char s)))"
| "std_value (VEpochTime i) = Some (JNum (of_int i))"
| "std_value (VEpochTimePtr i) = Some (JNum (of_int i))"
| "std_value (VStrings ss) = Some (JArr (map JStr ss))"
| "std_value (VInts is) = Some (JArr (map (\<lambda>i. JNum (of_int i)) is))"
| "std_value (VInt64s is) = Some (JArr (map (\<lambda>i. JNum (of_int i)) is))"
| "std_value (VFloat64s fs) =
     (case all_some (map std_float64 fs) of None \<Rightarrow> None | Some js \<Rightarrow> Some (JArr js))"
| "std_value (VMarshaler r) = (case r of Inl err \<Rightarrow> None | Inr marshaled \<Rightarrow> parse_json marshaled)"
| "std_value (VMap kvs) =
     (case all_some (map (\<lambda>kv. keyed (fst kv) (std_value (snd kv))) kvs) of
        None \<Rightarrow> None
      | Some ms \<Rightarrow> Some (JObj ms))"
| "std_value (VList vs) =
     (case all_some (map std_value vs) of None \<Rightarrow> None | Some js \<Rightarrow> Some (JArr js))"
| "std_value (VAlert a) = Some (std_Alert a)"
| "std_value (VAlertPtr a) = Some (std_Alert a)"
| "std_value (VSound s) = std_Sound s"
| "std_value (VSoundPtr s) = std_Sound s"
| "std_value VOther = None"

text \<open>A field of the APS struct: the members it contributes, or \<open>None\<close> on an error.\<close>

definition any_field :: "string \<Rightarrow> go_value \<Rightarrow> (string \<times> json) list option" where
  "any_field k v =
     (if v = VNil then Some []
      else case std_value v of None \<Rightarrow> None | Some j \<Rightarrow> Some [(k, j)])"

definition plain_field :: "string \<Rightarrow> json option \<Rightarrow> (string \<times> json) list option" where
  "plain_field k f = Some (members [(k, f)])"

definition map_field :: "string \<Rightarrow> (string \<times> go_value) list \<Rightarrow> (string \<times> json) list option" where
  "map_field k m =
     (if m = [] then Some []
      else case std_value (VMap m) of None \<Rightarrow> None | Some j \<Rightarrow> Some [(k, j)])"

definition std_APS :: "APS \<Rightarrow> json option" where
  "std_APS aps =
     (case all_some
        [any_field ''alert'' (Alert aps),
         any_field ''badge'' (Badge aps),
         any_field ''sound'' (Sound aps),
         any_field ''content-available'' (ContentAvailable aps),
         any_field ''mutable-content'' (MutableContent aps),
         plain_field ''category'' (str_field (Category aps)),
         plain_field ''thread-id'' (str_field (ThreadID aps)),
         plain_field ''interruption-level'' (str_field (InterruptionLevel aps)),
         any_field ''relevance-score'' (RelevanceScore aps),
         plain_field ''stale-date'' (map_option (\<lambda>i. JNum (of_int i)) (StaleDate aps)),
         plain_field ''filter-criteria'' (str_field (FilterCriteria aps)),
         plain_field ''timestamp'' (map_option (\<lambda>i. JNum (of_int i)) (Timestamp aps)),
         plain_field ''target-content-id'' (str_field (TargetContentID aps)),
         map_field ''content-state'' (ContentState aps),
         plain_field ''event'' (str_field (Event aps)),
         plain_field ''dismissal-date'' (int_field (DismissalDate aps)),
         plain_field ''attributes-type'' (str_field (AttributesType aps)),
         map_field ''attributes'' (Attributes aps)]
      of None \<Rightarrow> None
       | Some fs \<Rightarrow> Some (JObj (concat fs)))"

text \<open>\<open>json.Marshal\<close> of the map that \<open>Payload.MarshalJSON\<close> builds.\<close>

fun std_map_value :: "map_value \<Rightarrow> json option" where
  "std_map_value (Dyn v) = std_value v"
| "std_map_value (APSStruct aps) = std_APS aps"

definition std_map :: "go_map \<Rightarrow> json option" where
  "std_map m =
     (case all_some (map (\<lambda>kv. keyed (fst kv) (std_map_value (snd kv))) m) of
        None \<Rightarrow> None
      | Some ms \<Rightarrow> Some (JObj ms))"



section \<open>Texts and the structures they denote\<close>








section \<open>The values on which the two encoders are compared\<close>















section \<open>Agreement of the two encoders\<close>


section \<open>The escaping the specification describes\<close>

text \<open>
  The specification's words for every string the fast encoder emits: a control character
  (code point at most 0x1F) becomes the six characters \<open>\u00XX\<close>, the quote and the
  backslash get a backslash prefix, every other byte is copied; the result stands between
  two quotes.
\<close>

definition spec_escape_byte :: "char \<Rightarrow> string" where
  "spec_escape_byte c =
     (if (of_char c :: nat) \<le> 0x1F then
        [bslash, CHR ''u'', CHR ''0'', CHR ''0'',
         hex ! ((of_char c :: nat) div 16), hex ! ((of_char c :: nat) mod 16)]
      else if c = dquote \<or> c = bslash then [bslash, c]
      else [c])"

definition spec_quoted :: "string \<Rightarrow> string" where
  "spec_quoted val = dquote # concat (map spec_escape_byte val) @ [dquote]"

section \<open>Test payloads\<close>

text \<open>
  A payload whose custom data uses the reserved key, one whose custom key holds a line
  feed, and one whose custom value holds the control character 0x01.
\<close>

definition reserved_key_payload :: Payload where
  "reserved_key_payload =
     \<lparr> APS = APS_zero\<lparr>Alert := VString ''x''\<rparr>, CustomData = [(''aps'', VInt 1)] \<rparr>"

definition reserved_key_text :: string where
  \<open>reserved_key_text = ''{"aps":{"alert":"x"},"aps":1}''\<close>

definition control_key :: string where
  "control_key = [CHR ''a'', CHR 0x0A]"

definition control_key_payload :: Payload where
  "control_key_payload =
     \<lparr> APS = APS_zero\<lparr>Alert := VString ''x''\<rparr>, CustomData = [(control_key, VInt 1)] \<rparr>"

definition control_key_text :: string where
  \<open>control_key_text = ''{"aps":{"alert":"x"},"a'' @ [CHR 0x0A] @ ''":1}''\<close>

definition control_value_payload :: Payload where
  "control_value_payload =
     \<lparr> APS = APS_zero\<lparr>Alert := VString ''x''\<rparr>, CustomData = [(''k'', VString [CHR 0x01])] \<rparr>"

definition control_value_text :: string where
  \<open>control_value_text = ''{"aps":{"alert":"x"},"k":"'' @ [bslash] @ ''x01"}''\<close>

text \<open>A heap with one map that uses the reserved key, and a payload that refers to it.\<close>

definition reserved_key_heap :: heap where
  "reserved_key_heap = [[(''aps'', Dyn (VString ''mine'')), (''k'', Dyn (VInt 1))]]"

definition reserved_key_ref :: PayloadRef where
  "reserved_key_ref = \<lparr> ref_APS = APS_zero\<lparr>Alert := VString ''x''\<rparr>, ref_CustomData = Some 0 \<rparr>"





section \<open>Properties of validation\<close>

lemma or_else_not: "a \<noteq> Some e \<Longrightarrow> b \<noteq> Some e \<Longrightarrow> or_else a b \<noteq> Some e"
  by (auto simp add: or_else_def split: option.splits)

lemma or_else_None: "(or_else a b = None) = (a = None \<and> b = None)"
  by (simp add: or_else_def split: option.splits)

lemma validate_alert_not_empty: "validate_alert v \<noteq> Some EmptyDict"
  by (cases v rule: validate_alert.cases) simp_all

lemma validate_badge_not_empty: "validate_badge v \<noteq> Some EmptyDict"
  by (cases v rule: validate_badge.cases) simp_all

lemma Sound_Validate_not_empty: "Sound_Validate s \<noteq> Some EmptyDict"
  by (simp add: Sound_Validate_def Ratio_Validate_def split: option.splits)

lemma validate_sound_not_empty: "validate_sound v \<noteq> Some EmptyDict"
  by (cases v rule: validate_sound.cases) (simp_all add: Sound_Validate_not_empty)

lemma validate_flag_not_empty: "err \<noteq> EmptyDict \<Longrightarrow> validate_flag err v \<noteq> Some EmptyDict"
  by (cases "(err, v)" rule: validate_flag.cases) simp_all

lemma validate_interruption_level_not_empty: "validate_interruption_level l \<noteq> Some EmptyDict"
  by (simp add: validate_interruption_level_def)

lemma validate_event_not_empty: "validate_event ev \<noteq> Some EmptyDict"
  by (simp add: validate_event_def)

lemma validate_relevance_not_empty: "validate_relevance live v \<noteq> Some EmptyDict"
  by (simp add: validate_relevance_def split: option.splits)

lemma isNotification_RelevanceScore_update:
  "isNotification (aps\<lparr>RelevanceScore := v\<rparr>) = isNotification aps"
  by (simp add: isNotification_def)

lemma isLiveActivity_RelevanceScore_update:
  "isLiveActivity (aps\<lparr>RelevanceScore := v\<rparr>) = isLiveActivity aps"
  by (simp add: isLiveActivity_def)

lemma validate_relevance_None:
  "v \<noteq> VNil \<Longrightarrow> (validate_relevance live v = None) =
     (\<exists>score. relevance_number v = Some score \<and>
        (live \<or> \<not> (f64_lt score f64_zero \<or> f64_gt score f64_one)))"
  by (auto simp add: validate_relevance_def split: option.splits)

text \<open>The conversion of an int to a float64 keeps the sign and the order with 1.\<close>

lemma float64_shift_small: "a < 2 ^ 53 \<Longrightarrow> float64_shift a = 0"
  by (simp add: float64_shift.simps)

lemma f64_of_int_small: "\<bar>i\<bar> < 2 ^ 53 \<Longrightarrow> f64_of_int i = Fin i 0"
proof -
  assume "\<bar>i\<bar> < 2 ^ 53"
  define a where "a = nat \<bar>i\<bar>"
  have "a < 2 ^ 53" unfolding a_def using \<open>\<bar>i\<bar> < 2 ^ 53\<close> by (simp add: nat_less_iff)
  then have "float64_shift a = 0" by (rule float64_shift_small)
  then have "round_to_even a (float64_shift a) = a" by (simp add: round_to_even_def)
  then have "f64_of_int i = Fin (if i < 0 then - int a else int a) 0"
    unfolding f64_of_int_def a_def [symmetric] by (simp add: Let_def)
  moreover have "(if i < 0 then - int a else int a) = i" by (simp add: a_def)
  ultimately show ?thesis by simp
qed

lemma float64_shift_le: "0 < a \<Longrightarrow> 2 ^ float64_shift a \<le> a"
proof (induction a rule: float64_shift.induct)
  case (1 a)
  show ?case
  proof (cases "a < 2 ^ 53")
    case True
    then show ?thesis using "1.prems" by (simp add: float64_shift_small)
  next
    case False
    then have pos: "0 < a div 2" by simp
    have "2 ^ float64_shift (a div 2) \<le> a div 2" using "1.IH" [OF False pos] .
    then have "2 * 2 ^ float64_shift (a div 2) \<le> 2 * (a div 2)" by simp
    also have "\<dots> \<le> a" by simp
    finally show ?thesis using False by (simp add: float64_shift.simps [of a])
  qed
qed

lemma round_to_even_large:
  assumes "2 ^ 53 \<le> a"
  shows "2 \<le> round_to_even a (float64_shift a)"
proof -
  define k where "k = float64_shift a"
  have k: "0 < k" using assms by (simp add: k_def float64_shift.simps [of a])
  have "0 < a" using assms by (simp add: order_less_le_trans [of 0 "2 ^ 53" a])
  then have le: "2 ^ k \<le> a" unfolding k_def by (rule float64_shift_le)
  then have q: "1 \<le> a div 2 ^ k" by (simp add: div_greater_zero_iff Suc_le_eq)
  have "2 ^ 1 \<le> (2::nat) ^ k" using k by (intro power_increasing) simp_all
  then have two: "(2::nat) \<le> 2 ^ k" by simp
  have "2 ^ k \<le> (a div 2 ^ k) * 2 ^ k" using q by simp
  then have a: "2 \<le> (a div 2 ^ k) * 2 ^ k" using two by linarith
  have "(a div 2 ^ k) * 2 ^ k \<le> (a div 2 ^ k + 1) * 2 ^ k" by simp
  then have b: "2 \<le> (a div 2 ^ k + 1) * 2 ^ k" using a by linarith
  show ?thesis using k a b unfolding k_def [symmetric] round_to_even_def Let_def by simp
qed

lemma f64_of_int_range:
  "\<exists>v. f64_of_int i = Fin v 0 \<and> (v < 0) = (i < 0) \<and> (1 < v) = (1 < i)"
proof (cases "\<bar>i\<bar> < 2 ^ 53")
  case True
  then show ?thesis by (simp add: f64_of_int_small)
next
  case False
  then have big: "2 ^ 53 \<le> nat \<bar>i\<bar>" by (simp add: le_nat_iff)
  define r where "r = int (round_to_even (nat \<bar>i\<bar>) (float64_shift (nat \<bar>i\<bar>)))"
  have r: "2 \<le> r" unfolding r_def using round_to_even_large [OF big] by simp
  have f: "f64_of_int i = Fin (if i < 0 then - r else r) 0"
    by (simp add: f64_of_int_def Let_def r_def)
  show ?thesis
  proof (cases "i < 0")
    case True
    then show ?thesis using f r by simp
  next
    case False
    then have "1 < i" using \<open>\<not> \<bar>i\<bar> < 2 ^ 53\<close> by simp
    then show ?thesis using f r False by simp
  qed
qed

lemma f64_of_int_out_of_range:
  "(f64_lt (f64_of_int i) f64_zero \<or> f64_gt (f64_of_int i) f64_one) = (i < 0 \<or> 1 < i)"
proof -
  obtain v where v: "f64_of_int i = Fin v 0" "(v < 0) = (i < 0)" "(1 < v) = (1 < i)"
    using f64_of_int_range by blast
  have "(f64_lt (Fin v 0) f64_zero \<or> f64_gt (Fin v 0) f64_one) = (v < 0 \<or> 1 < v)"
    by (simp add: f64_zero_def f64_one_def f64_gt_def f64_val_def)
  then show ?thesis using v by simp
qed

lemmas validate_eval =
  APS_Validate_def APS_zero_def isNotification_def isLiveActivity_def or_else_def
  validate_interruption_level_def validate_event_def validate_relevance_def
  Sound_Validate_def Ratio_Validate_def
  f64_zero_def f64_one_def f64_gt_def f64_le_def f64_val_def f64_of_int_small

text \<open>
  The relevance score by its dynamic type, on a dictionary whose other fields pass: a
  float64 and an int are range-checked with \<open>score < 0.0 || score > 1.0\<close> when both
  \<open>ContentState\<close> and \<open>Attributes\<close> are empty and not checked otherwise; every other
  type is rejected. On a finite score the range check is \<open>0 \<le> score \<le> 1\<close>.
\<close>

lemma relevance_score_by_type:
  assumes "RelevanceScore aps \<noteq> VNil"
    and "APS_Validate (aps\<lparr>RelevanceScore := VNil\<rparr>) = None"
  shows "APS_Validate aps =
     (case RelevanceScore aps of
        VFloat64 f \<Rightarrow>
          if ContentState aps = [] \<and> Attributes aps = [] \<and> (f64_lt f f64_zero \<or> f64_gt f f64_one)
          then Some (RelevanceOutOfRange f) else None
      | VInt i \<Rightarrow>
          if ContentState aps = [] \<and> Attributes aps = [] \<and> (i < 0 \<or> 1 < i)
          then Some (RelevanceOutOfRange (f64_of_int i)) else None
      | _ \<Rightarrow> Some InvalidRelevanceType)"
proof -
  have others: "validate_alert (Alert aps) = None" "validate_badge (Badge aps) = None"
    "validate_sound (Sound aps) = None"
    "validate_flag InvalidContentAvailable (ContentAvailable aps) = None"
    "validate_flag InvalidMutableContent (MutableContent aps) = None"
    "validate_interruption_level (InterruptionLevel aps) = None"
    "validate_event (Event aps) = None"
    and cls: "isNotification aps \<or> isLiveActivity aps"
    using assms(2) unfolding APS_Validate_def
    by (simp_all add: or_else_None isNotification_RelevanceScore_update
          isLiveActivity_RelevanceScore_update split: if_splits)
  have "APS_Validate aps = validate_relevance (isLiveActivity aps) (RelevanceScore aps)"
    unfolding APS_Validate_def using others cls by (auto simp add: or_else_def)
  also have "\<dots> =
     (case RelevanceScore aps of
        VFloat64 f \<Rightarrow>
          if ContentState aps = [] \<and> Attributes aps = [] \<and> (f64_lt f f64_zero \<or> f64_gt f f64_one)
          then Some (RelevanceOutOfRange f) else None
      | VInt i \<Rightarrow>
          if ContentState aps = [] \<and> Attributes aps = [] \<and> (i < 0 \<or> 1 < i)
          then Some (RelevanceOutOfRange (f64_of_int i)) else None
      | _ \<Rightarrow> Some InvalidRelevanceType)"
    using assms(1)
    by (cases "RelevanceScore aps")
       (auto simp add: validate_relevance_def isLiveActivity_def f64_of_int_out_of_range)
  finally show ?thesis .
qed

lemma relevance_range_finite:
  "(\<not> (f64_lt (Fin m e) f64_zero \<or> f64_gt (Fin m e) f64_one)) =
     (0 \<le> f64_val m e \<and> f64_val m e \<le> 1)"
  by (auto simp add: f64_zero_def f64_one_def f64_gt_def f64_val_def)

text \<open>
  The scores 1.1 and -0.1 are rejected on a plain alert and accepted on a dictionary with
  a non-empty content state or non-empty attributes; the ints 1 and 2 likewise; a string
  is rejected on both.
\<close>

lemma relevance_score_examples:
  "APS_Validate (plain_alert (Fin 11 (-1))) = Some (RelevanceOutOfRange (Fin 11 (-1)))"
  "APS_Validate (plain_alert (Fin (-1) (-1))) = Some (RelevanceOutOfRange (Fin (-1) (-1)))"
  "APS_Validate (plain_alert (Fin 5 (-1))) = None"
  "APS_Validate (live_activity (Fin 11 (-1))) = None"
  "APS_Validate (live_activity (Fin (-1) (-1))) = None"
  "APS_Validate (APS_zero\<lparr>Attributes := [(''level'', VInt 10)],
      RelevanceScore := VFloat64 (Fin 11 (-1))\<rparr>) = None"
  "APS_Validate (APS_zero\<lparr>Alert := VString ''Hello'', RelevanceScore := VInt 1\<rparr>) = None"
  "APS_Validate (APS_zero\<lparr>Alert := VString ''Hello'', RelevanceScore := VInt 2\<rparr>) =
     Some (RelevanceOutOfRange (f64_of_int 2))"
  "APS_Validate (APS_zero\<lparr>Alert := VString ''Hello'', RelevanceScore := VString ''high''\<rparr>) =
     Some InvalidRelevanceType"
  "APS_Validate (APS_zero\<lparr>ContentState := [(''status'', VString ''running'')],
      RelevanceScore := VString ''high''\<rparr>) = Some InvalidRelevanceType"
  by (simp_all add: plain_alert_def live_activity_def validate_eval)

text \<open>
  C4. A plain alert whose relevance score is NaN passes \<open>APS.Validate\<close>: both
  \<open>ContentState\<close> and \<open>Attributes\<close> are empty, so the range check is applied, but both
  comparisons of \<open>score < 0.0 || score > 1.0\<close> are false on NaN, which is not within
  [0.0, 1.0]. On the same dictionary the score 1.1 is rejected as out of range and a string
  is rejected as not a number; with a non-empty content state the score 1.1 is accepted.
\<close>

theorem APS_Validate_accepts_NaN_relevance_score:
  "APS_Validate (plain_alert NaN) = None
   \<and> ContentState (plain_alert NaN) = [] \<and> Attributes (plain_alert NaN) = []
   \<and> \<not> (f64_le f64_zero NaN \<and> f64_le NaN f64_one)
   \<and> APS_Validate (plain_alert (Fin 11 (-1))) = Some (RelevanceOutOfRange (Fin 11 (-1)))
   \<and> APS_Validate (live_activity (Fin 11 (-1))) = None
   \<and> APS_Validate (APS_zero\<lparr>Alert := VString ''Hello'', RelevanceScore := VString ''high''\<rparr>) =
       Some InvalidRelevanceType"
  by (simp add: plain_alert_def live_activity_def validate_eval)

text \<open>
  C6. Validation returns the "empty dictionary" error exactly when \<open>Alert\<close>, \<open>Badge\<close>,
  \<open>Sound\<close>, \<open>ContentAvailable\<close> and \<open>MutableContent\<close> are all nil and \<open>ContentState\<close> and
  \<open>Attributes\<close> are both empty. The zero dictionary is rejected with it; a dictionary with
  only a content state, or only attributes, validates, and so does a dictionary with a
  single notification field; a badge of the wrong type is reported as such.
\<close>

theorem APS_Validate_empty_iff:
  "(APS_Validate aps = Some EmptyDict) =
     (Alert aps = VNil \<and> Badge aps = VNil \<and> Sound aps = VNil \<and>
      ContentAvailable aps = VNil \<and> MutableContent aps = VNil \<and>
      ContentState aps = [] \<and> Attributes aps = [])
   \<and> APS_Validate APS_zero = Some EmptyDict
   \<and> APS_Validate (APS_zero\<lparr>ContentState := [(''status'', VString ''running'')]\<rparr>) = None
   \<and> APS_Validate (APS_zero\<lparr>Attributes := [(''level'', VInt 10)]\<rparr>) = None
   \<and> APS_Validate (APS_zero\<lparr>Alert := VString ''Hello''\<rparr>) = None
   \<and> APS_Validate (APS_zero\<lparr>Badge := VInt 3\<rparr>) = None
   \<and> APS_Validate (APS_zero\<lparr>Sound := VString ''default''\<rparr>) = None
   \<and> APS_Validate (APS_zero\<lparr>ContentAvailable := VInt 1\<rparr>) = None
   \<and> APS_Validate (APS_zero\<lparr>MutableContent := VInt 1\<rparr>) = None
   \<and> APS_Validate (APS_zero\<lparr>Badge := VString ''3''\<rparr>) = Some InvalidBadgeType"
proof -
  have "(APS_Validate aps = Some EmptyDict) = (\<not> isNotification aps \<and> \<not> isLiveActivity aps)"
    unfolding APS_Validate_def
    by (simp add: or_else_not validate_alert_not_empty validate_badge_not_empty
      validate_sound_not_empty validate_flag_not_empty validate_interruption_level_not_empty
      validate_event_not_empty validate_relevance_not_empty)
  also have "\<dots> =
     (Alert aps = VNil \<and> Badge aps = VNil \<and> Sound aps = VNil \<and>
      ContentAvailable aps = VNil \<and> MutableContent aps = VNil \<and>
      ContentState aps = [] \<and> Attributes aps = [])"
    by (auto simp add: isNotification_def isLiveActivity_def)
  finally have "(APS_Validate aps = Some EmptyDict) =
     (Alert aps = VNil \<and> Badge aps = VNil \<and> Sound aps = VNil \<and>
      ContentAvailable aps = VNil \<and> MutableContent aps = VNil \<and>
      ContentState aps = [] \<and> Attributes aps = [])" .
  moreover have "APS_Validate APS_zero = Some EmptyDict"
    by (simp add: validate_eval)
  moreover have
    "APS_Validate (APS_zero\<lparr>ContentState := [(''status'', VString ''running'')]\<rparr>) = None"
    "APS_Validate (APS_zero\<lparr>Attributes := [(''level'', VInt 10)]\<rparr>) = None"
    "APS_Validate (APS_zero\<lparr>Alert := VString ''Hello''\<rparr>) = None"
    "APS_Validate (APS_zero\<lparr>Badge := VInt 3\<rparr>) = None"
    "APS_Validate (APS_zero\<lparr>Sound := VString ''default''\<rparr>) = None"
    "APS_Validate (APS_zero\<lparr>ContentAvailable := VInt 1\<rparr>) = None"
    "APS_Validate (APS_zero\<lparr>MutableContent := VInt 1\<rparr>) = None"
    "APS_Validate (APS_zero\<lparr>Badge := VString ''3''\<rparr>) = Some InvalidBadgeType"
    by (simp_all add: validate_eval)
  ultimately show ?thesis by blast
qed

theorem APS_Validate_empty_iff_witness:
  "Badge (APS_zero\<lparr>Badge := VInt 3\<rparr>) \<noteq> VNil
   \<and> Alert (APS_zero\<lparr>Badge := VInt 3\<rparr>) = VNil
   \<and> ContentState (APS_zero\<lparr>Badge := VInt 3\<rparr>) = []
   \<and> APS_Validate (APS_zero\<lparr>Badge := VInt 3\<rparr>) \<noteq> Some EmptyDict"
  using APS_Validate_empty_iff [of "APS_zero\<lparr>Badge := VInt 3\<rparr>"]
  by (simp add: APS_zero_def)

text \<open>
  C5. A sound descriptor whose volume is NaN passes \<open>Sound.Validate\<close>, although NaN is
  not within [0.0, 1.0]: both comparisons of \<open>Ratio.Validate\<close> are false on NaN.
\<close>

theorem Sound_Validate_accepts_NaN_volume:
  "Sound_Validate \<lparr>Name = ''default'', Critical = 0, Volume = NaN\<rparr> = None
   \<and> \<not> (f64_le f64_zero NaN \<and> f64_le NaN f64_one)"
  by (simp add: validate_eval)

text \<open>
  On every other volume the validator accepts exactly the descriptors with a flag in
  {0, 1} and a volume in [0.0, 1.0], and an invalid flag is reported before the volume.
\<close>

lemma Sound_Validate_iff_ordered:
  "Volume s \<noteq> NaN \<Longrightarrow>
   (Sound_Validate s = None) =
     ((Critical s = 0 \<or> Critical s = 1) \<and> f64_le f64_zero (Volume s) \<and> f64_le (Volume s) f64_one)"
  by (auto simp add: Sound_Validate_def Ratio_Validate_def f64_le_def f64_gt_def f64_zero_def f64_one_def
      split: option.splits)

lemma Sound_Validate_flag_first:
  "Critical s \<noteq> 0 \<Longrightarrow> Critical s \<noteq> 1 \<Longrightarrow> Sound_Validate s = Some (InvalidCriticalFlag (Critical s))"
  by (simp add: Sound_Validate_def)


section \<open>Properties of the client\<close>


lemma map_put_keys: "fst ` set (map_put k v m) = insert k (fst ` set m)"
  by (induction m) auto

lemma map_put_distinct: "distinct (map fst m) \<Longrightarrow> distinct (map fst (map_put k v m))"
proof (induction m)
  case Nil then show ?case by simp
next
  case (Cons kv m)
  have "fst ` set (map_put k v m) = insert k (fst ` set m)" by (rule map_put_keys)
  with Cons show ?case by auto
qed

lemma map_put_entries: "(t, e) \<in> set (map_put k v m) \<Longrightarrow> (t = k \<and> e = v) \<or> (t, e) \<in> set m"
  by (induction m) (auto split: if_splits)

lemma collect_successes:
  "snd (collect rs (f, s)) = s @ concat (map success_of rs)"
proof (induction rs arbitrary: f s)
  case Nil then show ?case by simp
next
  case (Cons r rs)
  obtain token resp err where r: "r = (token, resp, err)" by (cases r)
  show ?case
    by (cases err; cases resp) (simp_all add: r Cons.IH)
qed

lemma collect_failure_keys:
  "fst ` set (fst (collect rs (f, s))) =
     fst ` set f \<union> {t. \<exists>resp e. (t, resp, Some e) \<in> set rs}"
proof (induction rs arbitrary: f s)
  case Nil then show ?case by simp
next
  case (Cons r rs)
  obtain token resp err where r: "r = (token, resp, err)" by (cases r)
  show ?case
    by (cases err; cases resp) (auto simp add: r Cons.IH map_put_keys)
qed

lemma collect_failures_distinct:
  "distinct (map fst f) \<Longrightarrow> distinct (map fst (fst (collect rs (f, s))))"
proof (induction rs arbitrary: f s)
  case Nil then show ?case by simp
next
  case (Cons r rs)
  obtain token resp err where r: "r = (token, resp, err)" by (cases r)
  from Cons.prems show ?case
    by (cases err; cases resp) (simp_all add: r Cons.IH map_put_distinct)
qed

lemma collect_failure_entries:
  "(t, e) \<in> set (fst (collect rs (f, s))) \<Longrightarrow>
     (t, e) \<in> set f \<or> (\<exists>resp. (t, resp, Some e) \<in> set rs)"
proof (induction rs arbitrary: f s)
  case Nil then show ?case by simp
next
  case (Cons r rs)
  obtain token resp err where r: "r = (token, resp, err)" by (cases r)
  from Cons.prems show ?case
    by (cases err; cases resp) (auto simp add: r dest!: Cons.IH map_put_entries)
qed

lemma handleResponse_not_size_error:
  "handleResponse cli env resp = (response, Some e) \<Longrightarrow> \<not> is_size_error e"
  by (auto simp add: handleResponse_def Let_def split: option.splits if_splits prod.splits)


lemma Push_newBody_fail:
  "n_Validate env n = None \<Longrightarrow> \<not> (Type n = Location \<and> \<not> TokenBase cli) \<Longrightarrow>
   newBody cli env n = Inl e \<Longrightarrow> Push cli env n = ((None, Some e), [])"
  by (auto simp add: Push_def)

lemma Push_error_after_newBody:
  "n_Validate env n = None \<Longrightarrow> \<not> (Type n = Location \<and> \<not> TokenBase cli) \<Longrightarrow>
   newBody cli env n = Inr b \<Longrightarrow> snd (fst (Push cli env n)) = Some e \<Longrightarrow> \<not> is_size_error e"
  by (auto simp add: Push_def newRequest_def split: option.splits sum.splits prod.splits
      dest: handleResponse_not_size_error)

text \<open>
  C7. Once validation has passed and the payload has been serialized to \<open>b\<close>, \<open>Push\<close>
  returns a size error exactly when \<open>b\<close> is longer than 5120 bytes for the VoIP push type
  and 4096 bytes for every other; it then returns no response and has handed nothing to
  the transport. A body of exactly the ceiling passes the size check of \<open>newBody\<close>.
\<close>

theorem payload_size_limit:
  assumes "n_Validate env n = None"
    and "\<not> (Type n = Location \<and> \<not> TokenBase cli)"
    and "marshal_payload cli env n = Inr b"
  shows "((\<exists>e. snd (fst (Push cli env n)) = Some e \<and> is_size_error e) =
            (length b > (if Type n = Voip then 5120 else 4096)))
       \<and> (length b > (if Type n = Voip then 5120 else 4096) \<longrightarrow>
            Push cli env n =
              ((None, Some (if Type n = Voip then PayloadTooLargeVoip (length b)
                            else PayloadTooLarge (length b))), []))
       \<and> (length b \<le> (if Type n = Voip then 5120 else 4096) \<longrightarrow> newBody cli env n = Inr b)"
proof (cases "length b > (if Type n = Voip then 5120 else 4096)")
  case True
  then have nb: "newBody cli env n =
      Inl (if Type n = Voip then PayloadTooLargeVoip (length b) else PayloadTooLarge (length b))"
    using assms(3) by (simp add: newBody_def split: if_splits)
  have "Push cli env n =
      ((None, Some (if Type n = Voip then PayloadTooLargeVoip (length b)
                    else PayloadTooLarge (length b))), [])"
    by (rule Push_newBody_fail [OF assms(1) assms(2) nb])
  with True show ?thesis by auto
next
  case False
  then have nb: "newBody cli env n = Inr b"
    using assms(3) by (simp add: newBody_def split: if_splits)
  have "\<And>e. snd (fst (Push cli env n)) = Some e \<Longrightarrow> \<not> is_size_error e"
    by (rule Push_error_after_newBody [OF assms(1) assms(2) nb])
  with False nb show ?thesis by auto
qed

theorem payload_size_limit_witness:
  "newBody (test_client False) (fixed_body_env (replicate 4096 (CHR ''x''))) (test_notification Alert_type)
     = Inr (replicate 4096 (CHR ''x''))
   \<and> Push (test_client False) (fixed_body_env (replicate 4097 (CHR ''x''))) (test_notification Alert_type)
     = ((None, Some (PayloadTooLarge 4097)), [])
   \<and> newBody (test_client False) (fixed_body_env (replicate 4097 (CHR ''x''))) (test_notification Voip)
     = Inr (replicate 4097 (CHR ''x''))"
  using payload_size_limit [of "fixed_body_env (replicate 4096 (CHR ''x''))" "test_notification Alert_type"
          "test_client False" "replicate 4096 (CHR ''x'')"]
        payload_size_limit [of "fixed_body_env (replicate 4097 (CHR ''x''))" "test_notification Alert_type"
          "test_client False" "replicate 4097 (CHR ''x'')"]
        payload_size_limit [of "fixed_body_env (replicate 4097 (CHR ''x''))" "test_notification Voip"
          "test_client False" "replicate 4097 (CHR ''x'')"]
  by (simp add: fixed_body_env_def test_notification_def test_client_def marshal_payload_def
      Alert_type_def Voip_def Location_def)


lemma send_one_token: "fst (fst (send_one cli env n b i token)) = token"
  by (simp add: send_one_def Let_def split: option.splits sum.splits prod.splits)

lemma outcome_token: "fst (outcome cli env n b remaining i) = remaining ! i"
  by (simp add: outcome_def send_one_token)

lemma outcome_fun:
  "outcome cli env n b remaining = (\<lambda>i. fst (send_one cli env n b i (remaining ! i)))"
  by (rule ext) (simp add: outcome_def)

lemma mset_concat_map_perm:
  assumes "mset xs = mset ys"
  shows "mset (concat (map f xs)) = mset (concat (map f ys))"
proof -
  have "\<And>zs. mset (concat (map f zs)) = (\<Sum>x\<in>#mset zs. mset (f x))"
    subgoal for zs by (induction zs) auto
    done
  then show ?thesis using assms by simp
qed

lemma PushMulti_fanout:
  assumes "tokens \<noteq> []" and "int (length tokens) \<le> TokenLimits cli"
    and "n_Validate env (n\<lparr>Notification.DeviceToken := tokens ! 0\<rparr>) = None"
    and "\<not> (Type n = Location \<and> \<not> TokenBase cli)"
    and "newBody cli env (n\<lparr>Notification.DeviceToken := tokens ! 0\<rparr>) = Inr b"
    and "newRequest cli env (n\<lparr>Notification.DeviceToken := tokens ! 0\<rparr>) b = Inr req"
    and "transport env req = Inr resp"
    and "handleResponse cli env resp = (response, None)"
  shows "PushMulti cli env n tokens sched =
     (let fs = collect (map (outcome cli env (n\<lparr>Notification.DeviceToken := tokens ! 0\<rparr>) b (drop 1 tokens)) sched)
                 ([], [response\<lparr>DeviceToken := tokens ! 0\<rparr>])
      in ((snd fs, if length (fst fs) > 0 then Some (MultiError (fst fs)) else None),
          req # concat (map (\<lambda>i. snd (send_one cli env (n\<lparr>Notification.DeviceToken := tokens ! 0\<rparr>) b i
                                         (drop 1 tokens ! i))) sched)))"
  using assms
  by (auto simp add: PushMulti_def Let_def outcome_fun comp_def split: prod.splits)

text \<open>
  C8. When the checks before the fan-out pass and the first token's send succeeds, the
  call returns the first response together with the response of every remaining token
  whose send succeeded, each tagged with its token, in the order of arrival; if a
  remaining send failed, the error is the aggregate whose map has exactly the failed
  tokens as keys, each with an error its send produced; if none failed, there is no error.
  With tokens A, fail-device, B and a transport that rejects fail-device with a reason, the
  successes are A and B and the map has the single key fail-device, under either order of
  arrival.
\<close>

theorem PushMulti_partial_failure:
  assumes "tokens \<noteq> []" and "int (length tokens) \<le> TokenLimits cli"
    and "n_Validate env (n\<lparr>Notification.DeviceToken := tokens ! 0\<rparr>) = None"
    and "\<not> (Type n = Location \<and> \<not> TokenBase cli)"
    and "newBody cli env (n\<lparr>Notification.DeviceToken := tokens ! 0\<rparr>) = Inr b"
    and "newRequest cli env (n\<lparr>Notification.DeviceToken := tokens ! 0\<rparr>) b = Inr req"
    and "transport env req = Inr resp"
    and "handleResponse cli env resp = (response, None)"
    and "mset sched = mset [0..<length tokens - 1]"
    and "out = outcome cli env (n\<lparr>Notification.DeviceToken := tokens ! 0\<rparr>) b (drop 1 tokens)"
  shows "\<exists>successes err. fst (PushMulti cli env n tokens sched) = (successes, err) \<and>
     mset successes = {#response\<lparr>DeviceToken := tokens ! 0\<rparr>#} +
        mset (concat (map (\<lambda>i. success_of (out i)) [0..<length tokens - 1])) \<and>
     ((\<exists>i<length tokens - 1. failed (out i)) \<longrightarrow>
        (\<exists>failures. err = Some (MultiError failures) \<and> distinct (map fst failures) \<and>
           fst ` set failures = {tokens ! Suc i | i. i < length tokens - 1 \<and> failed (out i)} \<and>
           (\<forall>(t, e) \<in> set failures. \<exists>i<length tokens - 1. \<exists>r. out i = (t, r, Some e)))) \<and>
     ((\<forall>i<length tokens - 1. \<not> failed (out i)) \<longrightarrow> err = None)"
proof -
  let ?n = "n\<lparr>Notification.DeviceToken := tokens ! 0\<rparr>"
  let ?rs = "map out sched"
  let ?fs = "collect ?rs ([], [response\<lparr>DeviceToken := tokens ! 0\<rparr>])"
  have sched_set: "set sched = {0..<length tokens - 1}"
    using assms(9) by (metis mset_eq_setD set_upt)
  have pm: "fst (PushMulti cli env n tokens sched) =
      (snd ?fs, if length (fst ?fs) > 0 then Some (MultiError (fst ?fs)) else None)"
    unfolding PushMulti_fanout [OF assms(1-8), of sched] Let_def assms(10) by simp
  have succ: "snd ?fs = [response\<lparr>DeviceToken := tokens ! 0\<rparr>] @ concat (map success_of ?rs)"
    by (rule collect_successes)
  have "mset (concat (map (\<lambda>i. success_of (out i)) sched)) =
        mset (concat (map (\<lambda>i. success_of (out i)) [0..<length tokens - 1]))"
    by (rule mset_concat_map_perm [OF assms(9)])
  then have msucc: "mset (snd ?fs) = {#response\<lparr>DeviceToken := tokens ! 0\<rparr>#} +
        mset (concat (map (\<lambda>i. success_of (out i)) [0..<length tokens - 1]))"
    by (simp add: succ comp_def)
  have tok: "\<And>i. i < length tokens - 1 \<Longrightarrow> fst (out i) = tokens ! Suc i"
    by (simp add: assms(10) outcome_token)
  have keys0: "fst ` set (fst ?fs) = {t. \<exists>r e. (t, r, Some e) \<in> set ?rs}"
    by (simp add: collect_failure_keys)
  have keys: "fst ` set (fst ?fs) = {tokens ! Suc i | i. i < length tokens - 1 \<and> failed (out i)}"
  proof (rule set_eqI, rule iffI)
    fix t assume "t \<in> fst ` set (fst ?fs)"
    then obtain r e where "(t, r, Some e) \<in> set ?rs" using keys0 by auto
    then obtain i where i: "i \<in> set sched" "out i = (t, r, Some e)" by auto
    then have "i < length tokens - 1" using sched_set by simp
    moreover have "t = tokens ! Suc i" using tok [OF calculation] i(2) by simp
    moreover have "failed (out i)" using i(2) by simp
    ultimately show "t \<in> {tokens ! Suc i | i. i < length tokens - 1 \<and> failed (out i)}" by blast
  next
    fix t assume "t \<in> {tokens ! Suc i | i. i < length tokens - 1 \<and> failed (out i)}"
    then obtain i where i: "i < length tokens - 1" "t = tokens ! Suc i" "failed (out i)" by blast
    obtain t' r e' where o: "out i = (t', r, e')" by (cases "out i")
    with i(3) obtain e where e: "e' = Some e" by auto
    have "t' = t" using tok [OF i(1)] o i(2) by simp
    moreover have "i \<in> set sched" using sched_set i(1) by simp
    ultimately have "(t, r, Some e) \<in> set ?rs" using o e by force
    then show "t \<in> fst ` set (fst ?fs)" using keys0 by blast
  qed
  have dist: "distinct (map fst (fst ?fs))"
    by (rule collect_failures_distinct) simp
  have entries: "\<forall>(t, e) \<in> set (fst ?fs). \<exists>i<length tokens - 1. \<exists>r. out i = (t, r, Some e)"
  proof (clarify)
    fix t e assume "(t, e) \<in> set (fst ?fs)"
    then have "\<exists>r. (t, r, Some e) \<in> set ?rs"
      using collect_failure_entries [of t e ?rs "[]"] by simp
    then obtain r i where "i \<in> set sched" "(t, r, Some e) = out i" by auto
    then have "i < length tokens - 1" "out i = (t, r, Some e)"
      using sched_set by simp_all
    then show "\<exists>i<length tokens - 1. \<exists>r. out i = (t, r, Some e)"
      by blast
  qed
  have somefail: "(\<exists>i<length tokens - 1. failed (out i)) \<Longrightarrow> length (fst ?fs) > 0"
  proof -
    assume "\<exists>i<length tokens - 1. failed (out i)"
    then have "fst ` set (fst ?fs) \<noteq> {}" unfolding keys by blast
    then show ?thesis by auto
  qed
  have nofail: "(\<forall>i<length tokens - 1. \<not> failed (out i)) \<Longrightarrow> \<not> length (fst ?fs) > 0"
  proof -
    assume "\<forall>i<length tokens - 1. \<not> failed (out i)"
    then have "fst ` set (fst ?fs) = {}" unfolding keys by blast
    then show ?thesis by auto
  qed
  show ?thesis
    apply (rule exI [of _ "snd ?fs"])
    apply (rule exI [of _ "if length (fst ?fs) > 0 then Some (MultiError (fst ?fs)) else None"])
    using pm msucc keys dist entries somefail nofail by auto
qed


lemma base_payload_body: "Payload_MarshalJSONFast base_payload = Inr base_body"
  unfolding base_payload_def base_body_def APS_zero_def
  by code_simp

lemma base_newBody:
  "newBody (test_client True) mock_env (base_notification\<lparr>Notification.DeviceToken := t\<rparr>) = Inr base_body"
  by (simp add: newBody_def marshal_payload_def test_client_def base_notification_def
      base_payload_body Alert_type_def Voip_def base_body_def)

theorem PushMulti_partial_failure_witness:
  "fst (PushMulti (test_client True) mock_env base_notification [''A'', ''fail-device'', ''B''] [0, 1]) =
     ([accepted ''A'', accepted ''B''],
      Some (MultiError [(''fail-device'', APNsError 400 ''BadDeviceToken'' 0)]))
   \<and> fst (PushMulti (test_client True) mock_env base_notification [''A'', ''fail-device'', ''B''] [1, 0]) =
     ([accepted ''A'', accepted ''B''],
      Some (MultiError [(''fail-device'', APNsError 400 ''BadDeviceToken'' 0)]))"
proof -
  let ?tokens = "[''A'', ''fail-device'', ''B'']"
  let ?n = "base_notification\<lparr>Notification.DeviceToken := ?tokens ! 0\<rparr>"
  let ?req = "\<lparr> req_token = ''A'', req_push_type = Alert_type, req_body = base_body \<rparr>"
  let ?resp = "\<lparr> StatusCode = 200, apns_id = ''success-apns-id'', apns_unique_id = [],
              resp_body = [], read_error = None \<rparr>"
  let ?response = "\<lparr> DeviceToken = [], UniqueID = [], APNsID = ''success-apns-id'' \<rparr>"
  have h1: "?tokens \<noteq> []" by simp
  have h2: "int (length ?tokens) \<le> TokenLimits (test_client True)" by (simp add: test_client_def)
  have h3: "n_Validate mock_env ?n = None" by (simp add: mock_env_def fixed_body_env_def)
  have h4: "\<not> (Type base_notification = Location \<and> \<not> TokenBase (test_client True))"
    by (simp add: test_client_def)
  have h5: "newBody (test_client True) mock_env ?n = Inr base_body" by (rule base_newBody)
  have h6: "newRequest (test_client True) mock_env ?n base_body = Inr ?req"
    by (simp add: newRequest_def mock_env_def fixed_body_env_def base_notification_def)
  have h7: "transport mock_env ?req = Inr ?resp"
    by (simp add: mock_env_def fixed_body_env_def mock_transport_def)
  have h8: "handleResponse (test_client True) mock_env ?resp = (?response, None)"
    by (simp add: handleResponse_def test_client_def)
  have h9: "mset [0, 1] = mset [0..<length ?tokens - 1]" "mset [1, 0] = mset [0..<length ?tokens - 1]"
    by (simp_all add: upt_rec)
  note gen = PushMulti_partial_failure [OF h1 h2 h3 h4 h5 h6 h7 h8 _ refl]
  have ev: "fst (PushMulti (test_client True) mock_env base_notification ?tokens sched) =
     (snd (collect (map (outcome (test_client True) mock_env ?n base_body (drop 1 ?tokens)) sched)
                 ([], [?response\<lparr>DeviceToken := ?tokens ! 0\<rparr>])),
      if length (fst (collect (map (outcome (test_client True) mock_env ?n base_body (drop 1 ?tokens)) sched)
                 ([], [?response\<lparr>DeviceToken := ?tokens ! 0\<rparr>]))) > 0
      then Some (MultiError (fst (collect (map (outcome (test_client True) mock_env ?n base_body (drop 1 ?tokens)) sched)
                 ([], [?response\<lparr>DeviceToken := ?tokens ! 0\<rparr>])))) else None)" for sched
    unfolding PushMulti_fanout [OF h1 h2 h3 h4 h5 h6 h7 h8] Let_def by simp
  have o0: "outcome (test_client True) mock_env (base_notification\<lparr>Notification.DeviceToken := ''A''\<rparr>)
               base_body [''fail-device'', ''B''] 0 =
      (''fail-device'', Some \<lparr> DeviceToken = [], UniqueID = [], APNsID = ''fail-apns-id'' \<rparr>,
       Some (APNsError 400 ''BadDeviceToken'' 0))"
    by (simp add: outcome_def send_one_def newRequest_def mock_env_def fixed_body_env_def
        mock_transport_def handleResponse_def test_client_def mock_Unmarshal_def
        bad_device_token_body_def)
  have o1: "outcome (test_client True) mock_env (base_notification\<lparr>Notification.DeviceToken := ''A''\<rparr>)
               base_body [''fail-device'', ''B''] (Suc 0) =
      (''B'', Some ?response, None)"
    by (simp add: outcome_def send_one_def newRequest_def mock_env_def fixed_body_env_def
        mock_transport_def handleResponse_def test_client_def)
  show ?thesis
    using gen [OF h9(1)] gen [OF h9(2)]
    by (simp add: ev o0 o1 accepted_def)
qed


lemma send_one_attempt:
  "ctx_Err env i = None \<Longrightarrow> new_request_error env token = None \<Longrightarrow>
   snd (send_one cli env n b i token) = [\<lparr> req_token = token, req_push_type = Type n, req_body = b \<rparr>]"
  by (simp add: send_one_def newRequest_def Let_def split: sum.splits prod.splits)

lemma PushMulti_send_failed:
  assumes "tokens \<noteq> []" and "int (length tokens) \<le> TokenLimits cli"
    and "n_Validate env (n\<lparr>Notification.DeviceToken := tokens ! 0\<rparr>) = None"
    and "\<not> (Type n = Location \<and> \<not> TokenBase cli)"
    and "newBody cli env (n\<lparr>Notification.DeviceToken := tokens ! 0\<rparr>) = Inr b"
    and "newRequest cli env (n\<lparr>Notification.DeviceToken := tokens ! 0\<rparr>) b = Inr req"
    and "transport env req = Inl err"
  shows "PushMulti cli env n tokens sched = (([], Some (SendFailed err)), [req])"
  using assms by (auto simp add: PushMulti_def Let_def)

lemma PushMulti_first_error:
  assumes "tokens \<noteq> []" and "int (length tokens) \<le> TokenLimits cli"
    and "n_Validate env (n\<lparr>Notification.DeviceToken := tokens ! 0\<rparr>) = None"
    and "\<not> (Type n = Location \<and> \<not> TokenBase cli)"
    and "newBody cli env (n\<lparr>Notification.DeviceToken := tokens ! 0\<rparr>) = Inr b"
    and "newRequest cli env (n\<lparr>Notification.DeviceToken := tokens ! 0\<rparr>) b = Inr req"
    and "transport env req = Inr resp"
    and "handleResponse cli env resp = (response, Some err)"
  shows "PushMulti cli env n tokens sched = (([response], Some err), [req])"
  using assms by (auto simp add: PushMulti_def Let_def)

text \<open>
  C9. A service-reported failure of the first token ends the call: with the tokens
  token-fail-server-error and token-success-1 the call returns the single response of the
  first token and its error, and the only request handed to the transport is the first
  one.
\<close>

theorem PushMulti_first_service_error_counterexample:
  "PushMulti (test_client True) mock_env base_notification
      [''token-fail-server-error'', ''token-success-1''] [0] =
     (([\<lparr> DeviceToken = [], UniqueID = [], APNsID = [] \<rparr>],
       Some (APNsError 500 ''InternalServerError'' 0)),
      [\<lparr> req_token = ''token-fail-server-error'', req_push_type = Alert_type, req_body = base_body \<rparr>])"
proof -
  let ?tokens = "[''token-fail-server-error'', ''token-success-1'']"
  let ?n = "base_notification\<lparr>Notification.DeviceToken := ?tokens ! 0\<rparr>"
  let ?req = "\<lparr> req_token = ''token-fail-server-error'', req_push_type = Alert_type,
                req_body = base_body \<rparr>"
  let ?resp = "\<lparr> StatusCode = 500, apns_id = [], apns_unique_id = [],
              resp_body = internal_server_error_body, read_error = None \<rparr>"
  have h1: "?tokens \<noteq> []" by simp
  have h2: "int (length ?tokens) \<le> TokenLimits (test_client True)" by (simp add: test_client_def)
  have h3: "n_Validate mock_env ?n = None" by (simp add: mock_env_def fixed_body_env_def)
  have h4: "\<not> (Type base_notification = Location \<and> \<not> TokenBase (test_client True))"
    by (simp add: test_client_def)
  have h5: "newBody (test_client True) mock_env ?n = Inr base_body" by (rule base_newBody)
  have h6: "newRequest (test_client True) mock_env ?n base_body = Inr ?req"
    by (simp add: newRequest_def mock_env_def fixed_body_env_def base_notification_def)
  have h7: "transport mock_env ?req = Inr ?resp"
    by (simp add: mock_env_def fixed_body_env_def mock_transport_def)
  have h8: "handleResponse (test_client True) mock_env ?resp =
      (\<lparr> DeviceToken = [], UniqueID = [], APNsID = [] \<rparr>,
       Some (APNsError 500 ''InternalServerError'' 0))"
    by (simp add: handleResponse_def test_client_def mock_env_def fixed_body_env_def
        mock_Unmarshal_def internal_server_error_body_def bad_device_token_body_def)
  show ?thesis
    by (rule PushMulti_first_error [OF h1 h2 h3 h4 h5 h6 h7 h8])
qed

text \<open>
  C9, as the code has it. When the first token's send fails in the transport, the call
  returns no response and the wrapped error; when its response is classified as an error
  (service-reported or not), the call returns that one response and that error; in both
  cases only the first request was sent. When the first send succeeds, every remaining
  token whose context is alive and whose request can be built is sent, and its result is
  collected: a failure under its token in the aggregate, a success in the list.
\<close>

theorem PushMulti_first_token_gate:
  assumes "tokens \<noteq> []" and "int (length tokens) \<le> TokenLimits cli"
    and "n_Validate env (n\<lparr>Notification.DeviceToken := tokens ! 0\<rparr>) = None"
    and "\<not> (Type n = Location \<and> \<not> TokenBase cli)"
    and "newBody cli env (n\<lparr>Notification.DeviceToken := tokens ! 0\<rparr>) = Inr b"
    and "newRequest cli env (n\<lparr>Notification.DeviceToken := tokens ! 0\<rparr>) b = Inr req"
  shows "(\<forall>err. transport env req = Inl err \<longrightarrow>
            PushMulti cli env n tokens sched = (([], Some (SendFailed err)), [req]))
       \<and> (\<forall>resp response err.
            transport env req = Inr resp \<and> handleResponse cli env resp = (response, Some err) \<longrightarrow>
            PushMulti cli env n tokens sched = (([response], Some err), [req]))
       \<and> (\<forall>resp response.
            transport env req = Inr resp \<and> handleResponse cli env resp = (response, None) \<and>
            set sched = {0..<length tokens - 1} \<longrightarrow>
            (\<forall>i<length tokens - 1.
               (ctx_Err env i = None \<and> new_request_error env (tokens ! Suc i) = None \<longrightarrow>
                  \<lparr> req_token = tokens ! Suc i, req_push_type = Type n, req_body = b \<rparr>
                    \<in> set (snd (PushMulti cli env n tokens sched))) \<and>
               (case outcome cli env (n\<lparr>Notification.DeviceToken := tokens ! 0\<rparr>) b (drop 1 tokens) i of
                  (t, r, Some e) \<Rightarrow>
                    (\<exists>failures. snd (fst (PushMulti cli env n tokens sched)) = Some (MultiError failures)
                        \<and> t \<in> fst ` set failures)
                | (t, r, None) \<Rightarrow>
                    set (success_of (t, r, None)) \<subseteq> set (fst (fst (PushMulti cli env n tokens sched))))))"
proof -
  have A: "\<forall>err. transport env req = Inl err \<longrightarrow>
            PushMulti cli env n tokens sched = (([], Some (SendFailed err)), [req])"
    using PushMulti_send_failed [OF assms] by blast
  have B: "\<forall>resp response err.
            transport env req = Inr resp \<and> handleResponse cli env resp = (response, Some err) \<longrightarrow>
            PushMulti cli env n tokens sched = (([response], Some err), [req])"
    using PushMulti_first_error [OF assms] by blast
  have C: "\<forall>resp response.
            transport env req = Inr resp \<and> handleResponse cli env resp = (response, None) \<and>
            set sched = {0..<length tokens - 1} \<longrightarrow>
            (\<forall>i<length tokens - 1.
               (ctx_Err env i = None \<and> new_request_error env (tokens ! Suc i) = None \<longrightarrow>
                  \<lparr> req_token = tokens ! Suc i, req_push_type = Type n, req_body = b \<rparr>
                    \<in> set (snd (PushMulti cli env n tokens sched))) \<and>
               (case outcome cli env (n\<lparr>Notification.DeviceToken := tokens ! 0\<rparr>) b (drop 1 tokens) i of
                  (t, r, Some e) \<Rightarrow>
                    (\<exists>failures. snd (fst (PushMulti cli env n tokens sched)) = Some (MultiError failures)
                        \<and> t \<in> fst ` set failures)
                | (t, r, None) \<Rightarrow>
                    set (success_of (t, r, None)) \<subseteq> set (fst (fst (PushMulti cli env n tokens sched)))))"
  proof (intro allI impI)
    fix resp response i
    assume a: "transport env req = Inr resp \<and> handleResponse cli env resp = (response, None) \<and>
              set sched = {0..<length tokens - 1}"
      and i: "i < length tokens - 1"
    let ?n = "n\<lparr>Notification.DeviceToken := tokens ! 0\<rparr>"
    let ?out = "outcome cli env ?n b (drop 1 tokens)"
    let ?fs = "collect (map ?out sched) ([], [response\<lparr>DeviceToken := tokens ! 0\<rparr>])"
    have isched: "i \<in> set sched" using a i by simp
    have pm: "PushMulti cli env n tokens sched =
        ((snd ?fs, if length (fst ?fs) > 0 then Some (MultiError (fst ?fs)) else None),
         req # concat (map (\<lambda>i. snd (send_one cli env ?n b i (drop 1 tokens ! i))) sched))"
      using PushMulti_fanout [OF assms(1-6), of resp response sched] a by (simp add: Let_def)
    have tk: "drop 1 tokens ! i = tokens ! Suc i" using i by simp
    have X: "ctx_Err env i = None \<and> new_request_error env (tokens ! Suc i) = None \<longrightarrow>
            \<lparr> req_token = tokens ! Suc i, req_push_type = Type n, req_body = b \<rparr>
              \<in> set (snd (PushMulti cli env n tokens sched))"
    proof
      assume "ctx_Err env i = None \<and> new_request_error env (tokens ! Suc i) = None"
      then have "snd (send_one cli env ?n b i (drop 1 tokens ! i)) =
          [\<lparr> req_token = tokens ! Suc i, req_push_type = Type n, req_body = b \<rparr>]"
        using send_one_attempt [of env i "tokens ! Suc i" cli ?n b] tk by simp
      then show "\<lparr> req_token = tokens ! Suc i, req_push_type = Type n, req_body = b \<rparr>
              \<in> set (snd (PushMulti cli env n tokens sched))"
        using isched unfolding pm by force
    qed
    obtain t r e where o: "?out i = (t, r, e)" by (cases "?out i")
    have Y: "case ?out i of
            (t, r, Some e) \<Rightarrow>
              (\<exists>failures. snd (fst (PushMulti cli env n tokens sched)) = Some (MultiError failures)
                  \<and> t \<in> fst ` set failures)
          | (t, r, None) \<Rightarrow>
              set (success_of (t, r, None)) \<subseteq> set (fst (fst (PushMulti cli env n tokens sched)))"
    proof (cases e)
      case None
      have "set (success_of (?out i)) \<subseteq> set (snd ?fs)"
        using isched by (auto simp add: collect_successes)
      then show ?thesis using o None by (simp add: pm)
    next
      case (Some err)
      have "(t, r, Some err) \<in> set (map ?out sched)" using isched o Some by force
      then have "t \<in> fst ` set (fst ?fs)"
        unfolding collect_failure_keys by blast
      moreover from this have "length (fst ?fs) > 0" by auto
      ultimately show ?thesis using o Some by (simp add: pm)
    qed
    from X Y show "(ctx_Err env i = None \<and> new_request_error env (tokens ! Suc i) = None \<longrightarrow>
                  \<lparr> req_token = tokens ! Suc i, req_push_type = Type n, req_body = b \<rparr>
                    \<in> set (snd (PushMulti cli env n tokens sched))) \<and>
               (case outcome cli env (n\<lparr>Notification.DeviceToken := tokens ! 0\<rparr>) b (drop 1 tokens) i of
                  (t, r, Some e) \<Rightarrow>
                    (\<exists>failures. snd (fst (PushMulti cli env n tokens sched)) = Some (MultiError failures)
                        \<and> t \<in> fst ` set failures)
                | (t, r, None) \<Rightarrow>
                    set (success_of (t, r, None)) \<subseteq> set (fst (fst (PushMulti cli env n tokens sched))))"
      by (rule conjI)
  qed
  from A B C show ?thesis by (intro conjI)
qed


lemma mock_newRequest:
  "newRequest (test_client True) mock_env (base_notification\<lparr>Notification.DeviceToken := t\<rparr>) base_body =
     Inr \<lparr> req_token = t, req_push_type = Alert_type, req_body = base_body \<rparr>"
  by (simp add: newRequest_def mock_env_def fixed_body_env_def base_notification_def)

theorem PushMulti_first_token_gate_witness:
  "snd (PushMulti (test_client True) mock_env base_notification
          [''token-fail-server-error'', ''token-success-1''] [0]) =
     [\<lparr> req_token = ''token-fail-server-error'', req_push_type = Alert_type, req_body = base_body \<rparr>]
   \<and> \<lparr> req_token = ''fail-device'', req_push_type = Alert_type, req_body = base_body \<rparr>
       \<in> set (snd (PushMulti (test_client True) mock_env base_notification [''A'', ''fail-device'', ''B''] [1, 0]))
   \<and> \<lparr> req_token = ''B'', req_push_type = Alert_type, req_body = base_body \<rparr>
       \<in> set (snd (PushMulti (test_client True) mock_env base_notification [''A'', ''fail-device'', ''B''] [1, 0]))"
proof -
  have lim: "\<And>ts. length ts \<le> 3 \<Longrightarrow> int (length ts) \<le> TokenLimits (test_client True)"
    by (simp add: test_client_def)
  have val: "\<And>n. n_Validate mock_env n = None" by (simp add: mock_env_def fixed_body_env_def)
  have loc: "\<not> (Type base_notification = Location \<and> \<not> TokenBase (test_client True))"
    by (simp add: test_client_def)
  have ctx: "\<And>i. ctx_Err mock_env i = None" "\<And>t. new_request_error mock_env t = None"
    by (simp_all add: mock_env_def fixed_body_env_def)
  have ty: "Type base_notification = Alert_type" by (simp add: base_notification_def)
  let ?t1 = "[''token-fail-server-error'', ''token-success-1'']"
  let ?t2 = "[''A'', ''fail-device'', ''B'']"
  have tr1: "transport mock_env \<lparr> req_token = ?t1 ! 0, req_push_type = Alert_type, req_body = base_body \<rparr> =
      Inr \<lparr> StatusCode = 500, apns_id = [], apns_unique_id = [],
              resp_body = internal_server_error_body, read_error = None \<rparr>"
    by (simp add: mock_env_def fixed_body_env_def mock_transport_def)
  have hr1: "handleResponse (test_client True) mock_env \<lparr> StatusCode = 500, apns_id = [], apns_unique_id = [],
              resp_body = internal_server_error_body, read_error = None \<rparr> =
      (\<lparr> DeviceToken = [], UniqueID = [], APNsID = [] \<rparr>,
       Some (APNsError 500 ''InternalServerError'' 0))"
    by (simp add: handleResponse_def test_client_def mock_env_def fixed_body_env_def
        mock_Unmarshal_def internal_server_error_body_def bad_device_token_body_def)
  have tr2: "transport mock_env \<lparr> req_token = ?t2 ! 0, req_push_type = Alert_type, req_body = base_body \<rparr> =
      Inr \<lparr> StatusCode = 200, apns_id = ''success-apns-id'', apns_unique_id = [],
              resp_body = [], read_error = None \<rparr>"
    by (simp add: mock_env_def fixed_body_env_def mock_transport_def)
  have hr2: "handleResponse (test_client True) mock_env \<lparr> StatusCode = 200, apns_id = ''success-apns-id'',
              apns_unique_id = [], resp_body = [], read_error = None \<rparr> =
      (\<lparr> DeviceToken = [], UniqueID = [], APNsID = ''success-apns-id'' \<rparr>, None)"
    by (simp add: handleResponse_def test_client_def)
  have sch: "set [1, 0] = {0..<length ?t2 - 1}" by auto
  note g1 = PushMulti_first_token_gate [of ?t1 "test_client True" mock_env base_notification base_body _ "[0]",
      OF _ lim val loc base_newBody mock_newRequest]
  note g2 = PushMulti_first_token_gate [of ?t2 "test_client True" mock_env base_notification base_body _ "[1, 0]",
      OF _ lim val loc base_newBody mock_newRequest]
  have "PushMulti (test_client True) mock_env base_notification ?t1 [0] =
      (([\<lparr> DeviceToken = [], UniqueID = [], APNsID = [] \<rparr>], Some (APNsError 500 ''InternalServerError'' 0)),
       [\<lparr> req_token = ?t1 ! 0, req_push_type = Alert_type, req_body = base_body \<rparr>])"
    using g1 tr1 hr1 by simp
  moreover have "\<And>i. i < 2 \<Longrightarrow>
      \<lparr> req_token = ?t2 ! Suc i, req_push_type = Alert_type, req_body = base_body \<rparr>
        \<in> set (snd (PushMulti (test_client True) mock_env base_notification ?t2 [1, 0]))"
    using g2 tr2 hr2 sch ctx ty by simp
  from this [of 0] this [of 1]
  have "\<lparr> req_token = ''fail-device'', req_push_type = Alert_type, req_body = base_body \<rparr>
        \<in> set (snd (PushMulti (test_client True) mock_env base_notification ?t2 [1, 0]))
     \<and> \<lparr> req_token = ''B'', req_push_type = Alert_type, req_body = base_body \<rparr>
        \<in> set (snd (PushMulti (test_client True) mock_env base_notification ?t2 [1, 0]))"
    by simp
  ultimately show ?thesis by simp
qed


section \<open>Properties of the string escaping\<close>

lemma quote_loop_append: "quote_loop q b val = b @ concat (map q val)"
  by (induction val arbitrary: b) simp_all

lemma quote_byte_spec: "quote_byte c = spec_escape_byte c"
  by (auto simp add: quote_byte_def spec_escape_byte_def dquote_def bslash_def)

text \<open>
  The \<open>appendQuote\<close> of the APS, Alert and Sound encoders escapes as the specification
  describes.
\<close>

lemma appendQuote_meets_spec: "appendQuote b val = b @ spec_quoted val"
  by (simp add: appendQuote_def spec_quoted_def quote_loop_append quote_byte_spec [abs_def])

text \<open>
  C2. The other two string paths do not. The \<open>appendQuote\<close> of \<open>marshalCustomData\<close> copies
  a line feed in a custom-data key unescaped, and \<open>strconv.AppendQuote\<close>, used for dynamic
  string values and nested map keys, writes the control character 0x01 as \<open>\x01\<close>, a line
  feed as \<open>\n\<close> and the byte 0x7F as \<open>\x7f\<close>.
\<close>

theorem fast_string_escaping_divergence:
  "customData_appendQuote [] control_key = [dquote, CHR ''a'', CHR 0x0A, dquote]
   \<and> customData_appendQuote [] control_key \<noteq> spec_quoted control_key
   \<and> Payload_MarshalJSONFast control_key_payload = Inr control_key_text
   \<and> strconv_AppendQuote [] [CHR 0x01] = [dquote, bslash, CHR ''x'', CHR ''0'', CHR ''1'', dquote]
   \<and> strconv_AppendQuote [] [CHR 0x01] \<noteq> spec_quoted [CHR 0x01]
   \<and> Payload_MarshalJSONFast control_value_payload = Inr control_value_text
   \<and> strconv_AppendQuote [] [CHR 0x0A] = [dquote, bslash, CHR ''n'', dquote]
   \<and> strconv_AppendQuote [] [CHR 0x0A] \<noteq> spec_quoted [CHR 0x0A]
   \<and> strconv_AppendQuote [] [CHR 0x7F] = [dquote, bslash, CHR ''x'', CHR ''7'', CHR ''f'', dquote]
   \<and> strconv_AppendQuote [] [CHR 0x7F] \<noteq> spec_quoted [CHR 0x7F]"
  unfolding control_key_def control_key_payload_def control_key_text_def
    control_value_payload_def control_value_text_def APS_zero_def
  by code_simp

text \<open>
  C3. With the custom key \<open>aps\<close> the payload encoder emits the key \<open>aps\<close> twice in the
  top-level object, and with a line feed in a custom key its output is not a JSON text.
\<close>

theorem Payload_fast_duplicate_aps:
  "Payload_MarshalJSONFast reserved_key_payload = Inr reserved_key_text
   \<and> parse_json reserved_key_text =
       Some (JObj [(''aps'', JObj [(''alert'', JStr ''x'')]), (''aps'', JNum 1)])
   \<and> \<not> well_formed_object reserved_key_text
   \<and> Payload_MarshalJSONFast control_key_payload = Inr control_key_text
   \<and> parse_json control_key_text = None
   \<and> \<not> well_formed_object control_key_text"
  unfolding reserved_key_payload_def reserved_key_text_def control_key_def control_key_payload_def
    control_key_text_def APS_zero_def
  by code_simp

section \<open>Properties of the standard marshaler\<close>

lemma all_some_map_Some: "all_some (map Some ys) = Some ys"
  by (induction ys) simp_all

lemma all_some_SomeD: "all_some xs = Some ys \<Longrightarrow> xs = map Some ys"
proof (induction xs arbitrary: ys)
  case Nil then show ?case by simp
next
  case (Cons x xs)
  then show ?case by (cases x) (auto split: option.splits)
qed

lemma all_some_iff: "(all_some xs = Some ys) = (xs = map Some ys)"
  using all_some_map_Some all_some_SomeD by blast

lemma keyed_Some: "(keyed k r = Some kv) = (\<exists>j. r = Some j \<and> kv = (k, j))"
  by (auto simp add: keyed_def split: option.splits)

lemma entries_put_keys: "fst ` set (entries_put k v m) = insert k (fst ` set m)"
  by (induction m) auto

lemma entries_put_distinct: "distinct (map fst m) \<Longrightarrow> distinct (map fst (entries_put k v m))"
proof (induction m)
  case Nil then show ?case by simp
next
  case (Cons kv m)
  have "fst ` set (entries_put k v m) = insert k (fst ` set m)" by (rule entries_put_keys)
  with Cons show ?case by auto
qed

lemma map_of_entries_put: "map_of (entries_put k v m) = (map_of m)(k \<mapsto> v)"
  by (induction m) (auto simp add: fun_upd_twist)

lemma std_map_members:
  assumes "std_map m = Some (JObj kvs)"
  shows "map fst kvs = map fst m"
    and "\<And>k mv. distinct (map fst m) \<Longrightarrow> map_of m k = Some mv \<Longrightarrow>
           \<exists>j. std_map_value mv = Some j \<and> map_of kvs k = Some j"
proof -
  from assms have eq: "map (\<lambda>kv. keyed (fst kv) (std_map_value (snd kv))) m = map Some kvs"
    by (auto simp add: std_map_def all_some_iff split: option.splits)
  then have "length (map (\<lambda>kv. keyed (fst kv) (std_map_value (snd kv))) m) = length (map Some kvs)"
    by simp
  then have len: "length m = length kvs" by simp
  have each: "\<And>i. i < length m \<Longrightarrow>
      std_map_value (snd (m ! i)) = Some (snd (kvs ! i)) \<and> fst (kvs ! i) = fst (m ! i)"
  proof -
    fix i assume i: "i < length m"
    from eq have "map (\<lambda>kv. keyed (fst kv) (std_map_value (snd kv))) m ! i = map Some kvs ! i"
      by simp
    with i len have "keyed (fst (m ! i)) (std_map_value (snd (m ! i))) = Some (kvs ! i)" by simp
    then show "std_map_value (snd (m ! i)) = Some (snd (kvs ! i)) \<and> fst (kvs ! i) = fst (m ! i)"
      by (auto simp add: keyed_Some)
  qed
  show keys: "map fst kvs = map fst m"
    using len each by (intro nth_equalityI) auto
  fix k mv
  assume d: "distinct (map fst m)" and l: "map_of m k = Some mv"
  from l have "(k, mv) \<in> set m" by (rule map_of_SomeD)
  then obtain i where i: "i < length m" "m ! i = (k, mv)" by (auto simp add: in_set_conv_nth)
  with each [of i] have s: "std_map_value mv = Some (snd (kvs ! i))" "fst (kvs ! i) = k" by auto
  have "distinct (map fst kvs)" using d keys by simp
  moreover have "kvs ! i \<in> set kvs" using i len by simp
  ultimately have "map_of kvs (fst (kvs ! i)) = Some (snd (kvs ! i))"
    by (intro map_of_is_SomeI) simp_all
  with s show "\<exists>j. std_map_value mv = Some j \<and> map_of kvs k = Some j" by simp
qed

text \<open>
  C10. When the custom data of a payload holds the reserved key \<open>aps\<close>,
  \<open>Payload.MarshalJSON\<close> hands to \<open>json.Marshal\<close> a freshly allocated map that agrees with
  the custom data on every other key and maps \<open>aps\<close> to the APS struct, and every map that
  was on the heap before the call, the custom data among them, is unchanged. The object
  the reflective encoder produces from that map has distinct keys, the keys of the custom
  data, and its \<open>aps\<close> member is the encoding of the APS struct.
\<close>

theorem Payload_MarshalJSON_reserved_key:
  assumes "ref_CustomData p = Some a" and "a < length h"
    and "distinct (map fst (h ! a))" and "(''aps'', v) \<in> set (h ! a)"
  shows "\<exists>mp. Payload_MarshalJSON marshal h p = (marshal mp, h @ [mp])
       \<and> distinct (map fst mp)
       \<and> map_of mp = (map_of (h ! a))(''aps'' \<mapsto> APSStruct (ref_APS p))
       \<and> (\<forall>b < length h. (h @ [mp]) ! b = h ! b)
       \<and> (\<forall>kvs. std_map mp = Some (JObj kvs) \<longrightarrow>
             distinct (map fst kvs) \<and> set (map fst kvs) = set (map fst (h ! a)) \<and>
             map_of kvs ''aps'' = std_APS (ref_APS p))"
proof -
  let ?mp = "entries_put ''aps'' (APSStruct (ref_APS p)) (h ! a)"
  have len: "map_len h (ref_CustomData p) \<noteq> 0"
    using assms by (auto simp add: map_len_def)
  have run: "Payload_MarshalJSON marshal h p = (marshal ?mp, h @ [?mp])"
    using assms(1,2) len
    by (simp add: Payload_MarshalJSON_def maps_Clone_def map_store_def Let_def nth_append)
  have d: "distinct (map fst ?mp)" by (rule entries_put_distinct [OF assms(3)])
  have m: "map_of ?mp = (map_of (h ! a))(''aps'' \<mapsto> APSStruct (ref_APS p))"
    by (rule map_of_entries_put)
  have old: "\<forall>b < length h. (h @ [?mp]) ! b = h ! b" by (simp add: nth_append)
  have keys: "set (map fst ?mp) = set (map fst (h ! a))"
    using assms(4) entries_put_keys [of "''aps''" "APSStruct (ref_APS p)" "h ! a"] by force
  have std: "\<forall>kvs. std_map ?mp = Some (JObj kvs) \<longrightarrow>
             distinct (map fst kvs) \<and> set (map fst kvs) = set (map fst (h ! a)) \<and>
             map_of kvs ''aps'' = std_APS (ref_APS p)"
  proof (intro allI impI)
    fix kvs assume s: "std_map ?mp = Some (JObj kvs)"
    have k: "map fst kvs = map fst ?mp" by (rule std_map_members(1) [OF s])
    have "map_of ?mp ''aps'' = Some (APSStruct (ref_APS p))" by (simp add: m)
    from std_map_members(2) [OF s d this]
    have "map_of kvs ''aps'' = std_APS (ref_APS p)" by auto
    with k d keys show "distinct (map fst kvs) \<and> set (map fst kvs) = set (map fst (h ! a)) \<and>
             map_of kvs ''aps'' = std_APS (ref_APS p)" by simp
  qed
  from run d m old std show ?thesis by blast
qed


theorem Payload_MarshalJSON_reserved_key_witness:
  "ref_CustomData reserved_key_ref = Some 0 \<and> 0 < length reserved_key_heap
   \<and> distinct (map fst (reserved_key_heap ! 0))
   \<and> (''aps'', Dyn (VString ''mine'')) \<in> set (reserved_key_heap ! 0)
   \<and> fst (Payload_MarshalJSON std_map reserved_key_heap reserved_key_ref) =
         Some (JObj [(''aps'', JObj [(''alert'', JStr ''x'')]), (''k'', JNum 1)])
   \<and> snd (Payload_MarshalJSON std_map reserved_key_heap reserved_key_ref) ! 0 = reserved_key_heap ! 0"
proof -
  have h1: "ref_CustomData reserved_key_ref = Some 0" by (simp add: reserved_key_ref_def)
  have h2: "0 < length reserved_key_heap" by (simp add: reserved_key_heap_def)
  have h3: "distinct (map fst (reserved_key_heap ! 0))" by (simp add: reserved_key_heap_def)
  have h4: "(''aps'', Dyn (VString ''mine'')) \<in> set (reserved_key_heap ! 0)"
    by (simp add: reserved_key_heap_def)
  have ev: "fst (Payload_MarshalJSON std_map reserved_key_heap reserved_key_ref) =
         Some (JObj [(''aps'', JObj [(''alert'', JStr ''x'')]), (''k'', JNum 1)])"
    unfolding reserved_key_heap_def reserved_key_ref_def APS_zero_def by code_simp
  from Payload_MarshalJSON_reserved_key [OF h1 h2 h3 h4, of std_map]
  obtain mp where "Payload_MarshalJSON std_map reserved_key_heap reserved_key_ref =
      (std_map mp, reserved_key_heap @ [mp])"
    and "\<forall>b < length reserved_key_heap. (reserved_key_heap @ [mp]) ! b = reserved_key_heap ! b"
    by blast
  then have "snd (Payload_MarshalJSON std_map reserved_key_heap reserved_key_ref) ! 0 =
      reserved_key_heap ! 0"
    using h2 by simp
  with h1 h2 h3 h4 ev show ?thesis by blast
qed


section \<open>Reading back what the encoders write\<close>

subsection \<open>String literals\<close>

















subsection \<open>Numbers\<close>






























subsection \<open>Values, arrays and objects\<close>
























section \<open>Agreement of the fast encoder with the reflective encoder\<close>

subsection \<open>Structural equality\<close>






subsection \<open>The recursive value encoder\<close>































subsection \<open>Objects written member by member\<close>














subsection \<open>The members the reflective encoder writes\<close>











lemma members_int_field:
  "members [(k, int_field i)] = (if i \<noteq> 0 then [(k, JNum (of_int i))] else [])"
  by (simp add: int_field_def)

subsection \<open>Alert\<close>






subsection \<open>Fields of the APS dictionary and of Sound\<close>








subsection \<open>The dynamically typed fields of the APS dictionary\<close>










subsection \<open>The APS dictionary\<close>


subsection \<open>The payload\<close>






subsection \<open>The round trip\<close>




end
